theory Spec2Isabelle
  imports Main
begin

section \<open>Python values, exceptions and the interpreter's built-in operations\<close>

text \<open>
  The scripts are Python. A Python \<open>str\<close> is modelled as a \<open>string\<close> holding its UTF-8
  bytes, so every non-ASCII code point is a run of bytes \<open>\<ge> 0x80\<close>. Exceptions are
  values: a function that can raise returns \<open>exn + 'a\<close> with \<open>Inl\<close> the exception that
  propagates. An \<open>exn\<close> is an instance of a subclass of Python's \<open>Exception\<close>, which is
  what \<open>except Exception\<close> catches; \<open>RequestException\<close> stands for
  \<open>requests.RequestException\<close> and all its subclasses. The text of an exception is what
  \<open>str(e)\<close> gives; the texts of the errors the interpreter raises are those of CPython 3.11.
\<close>

datatype exc_class =
  RequestException | KeyError | IndexError | TypeError | AttributeError | ValueError
  | ZeroDivisionError | SyntaxError | RecursionError | OtherException

datatype exn = Exn (exc_cls: exc_class) (exc_text: string)

text \<open>
  The exceptions that are no subclass of \<open>Exception\<close> and pass through
  \<open>except Exception\<close>. Of the code modelled here, only the evaluation of an arbitrary
  expression can raise one: \<open>eval\<close> with emptied built-ins still reaches every class of the
  interpreter through the attributes of a literal.
\<close>

datatype base_exception = SystemExit string | KeyboardInterrupt | GeneratorExit

text \<open>What a piece of code that may run arbitrary Python does: it returns a value, raises
  an \<open>Exception\<close>, or raises an exception outside \<open>Exception\<close>.\<close>

datatype 'a outcome = Returns 'a | Raises exn | Exits base_exception

text \<open>What \<open>response.json()\<close> decodes to; \<open>'n\<close> is the type of Python numbers.\<close>

datatype 'n json =
  JNull | JBool bool | JNum 'n | JStr string | JArr "'n json list" | JObj "(string \<times> 'n json) list"

text \<open>The two ways the scripts call \<open>eval\<close>: \<open>eval(expression)\<close> inside a module (the
  caller's globals and locals), and \<open>eval(expression, {"__builtins__": {}}, {})\<close>.\<close>

datatype eval_scope = ModuleScope string | RestrictedScope

text \<open>The function whose frame calls \<open>eval\<close>: an evaluated expression can walk the call
  stack and read it.\<close>

record frame =
  frame_module :: string
  frame_function :: string

section \<open>The world a tool call runs in\<close>

text \<open>
  One call of \<open>requests.get\<close> sends the GET of the request and, since
  \<open>allow_redirects\<close> is left at its default, one further GET for every redirect that the
  service answers with; it then raises or returns the last response. On the response,
  \<open>raise_for_status()\<close> raises an \<open>HTTPError\<close> (a \<open>RequestException\<close>) with the given
  text or returns, and \<open>json()\<close> raises or returns the decoded body.
\<close>

record request =
  url :: string
  headers :: "(string \<times> string) list"
  timeout :: "nat option"

record 'n response =
  status_error :: "string option"
  json_body :: "exn + 'n json"

text \<open>What one call of \<open>requests.get\<close> does: the URLs of the GETs it sends, in order,
  and what it raises or returns.\<close>

record 'n exchange =
  sent :: "string list"
  answer :: "exn + 'n response"

text \<open>
  What the modules \<open>platform\<close> and \<open>datetime\<close> report: \<open>platform.system()\<close>,
  \<open>platform.release()\<close>, \<open>platform.python_version()\<close>, \<open>platform.platform()\<close>, and
  \<open>datetime.datetime.now().strftime('%Y-%m-%d %H:%M:%S')\<close>. Module \<open>platform\<close> keeps
  its description of the host in a cache; the first time in a process that it is asked for
  \<open>platform.platform()\<close>, it may run commands in child processes to find out
  (\<open>uname -p\<close> on Linux under CPython 3.11): \<open>probe_commands\<close> are those commands.
\<close>

record host =
  system_name :: string
  release :: string
  python_version :: string
  platform_text :: string
  local_time :: string
  probe_commands :: "string list"

text \<open>
  The state a call can read or change: the process environment; the filesystem; the remote
  services, whose behaviour at a call of \<open>requests.get\<close> may depend on the GETs sent so
  far; the global random generator of module \<open>random\<close> (the sequence of its draws and how
  many were taken); standard output, with what writing a given text to it raises, if
  anything (a closed stream, a text the stream cannot encode); standard error; the host and
  its clock, and whether module \<open>platform\<close> has its description of the host cached; and
  four logs that record each command run in a child process, each call of \<open>requests.get\<close>,
  each HTTP GET and each call of \<open>eval\<close>.
\<close>

record 'n world =
  environ :: "string \<rightharpoonup> string"
  files :: "string \<rightharpoonup> string"
  remote :: "string list \<Rightarrow> request \<Rightarrow> 'n exchange"
  rng_seq :: "nat \<Rightarrow> nat"
  rng_pos :: nat
  stdout :: "string list"
  stdout_fault :: "string \<Rightarrow> exn option"
  stderr :: "string list"
  machine :: host
  platform_cached :: bool
  process_log :: "string list"
  call_log :: "request list"
  http_log :: "string list"
  eval_log :: "(eval_scope \<times> string) list"

section \<open>The interpreter\<close>

text \<open>
  The operations of the interpreter that the scripts use but do not define are taken as
  parameters: arithmetic and formatting of numbers (floating point, integers of any size),
  \<open>repr\<close> of containers, and the built-in \<open>eval\<close> (\<open>'v\<close> is the type of the objects
  \<open>eval\<close> returns). Multiplying and formatting can raise (\<open>OverflowError\<close>, \<open>TypeError\<close>,
  \<open>ValueError\<close>); so can \<open>str\<close> of a number, which refuses an integer of more than 4300
  digits.

  A value of this type stands for the interpreter as it is at the moment a tool is called:
  \<open>stack_depth\<close> is the depth of the call stack at that moment. The compiler inside
  \<open>eval\<close> gives up with a \<open>RecursionError\<close> earlier when the call is made deeper in the
  stack, so what \<open>eval(expression)\<close> returns or raises, \<open>eval_at\<close>, depends on that
  depth as well as on the module and the text; two calls on the same text may run at
  different depths.

  \<open>eval_warnings\<close> gives the warning lines that \<open>eval(expression)\<close> writes to standard
  error, and \<open>str_value\<close> is \<open>str\<close> of the result. The scripts make this call on texts
  within the allow-list only; such a text holds no name and no attribute, so its evaluation
  reaches numbers, tuples and \<open>Ellipsis\<close> only.

  \<open>restricted_eval\<close> is \<open>eval(expression, {"__builtins__": {}}, {})\<close> on an arbitrary
  text, called from the given frame: it may read and change anything in the world, and it may
  raise any exception. \<open>format_value\<close> is the f-string field \<open>{result}\<close> on what it
  returned and \<open>exception_str\<close> is \<open>str(e)\<close> on what it raised; both run methods of
  objects the expression made.
\<close>

record ('n, 'v) runtime =
  num_type_name :: "'n \<Rightarrow> string"
  num_truthy :: "'n \<Rightarrow> bool"
  num_str :: "'n \<Rightarrow> exn + string"
  repr_container :: "'n json \<Rightarrow> exn + string"
  py_mul :: "'n \<Rightarrow> 'n json \<Rightarrow> exn + 'n json"
  format_fixed :: "nat \<Rightarrow> 'n json \<Rightarrow> exn + string"
  stack_depth :: nat
  eval_at :: "nat \<Rightarrow> eval_scope \<Rightarrow> string \<Rightarrow> exn + 'v"
  eval_warnings :: "eval_scope \<Rightarrow> string \<Rightarrow> string list"
  str_value :: "'v \<Rightarrow> exn + string"
  restricted_eval :: "frame \<Rightarrow> string \<Rightarrow> 'n world \<Rightarrow> 'v outcome \<times> 'n world"
  format_value :: "'v \<Rightarrow> 'n world \<Rightarrow> string outcome \<times> 'n world"
  exception_str :: "exn \<Rightarrow> 'n world \<Rightarrow> string outcome \<times> 'n world"

text \<open>What \<open>eval(expression)\<close> returns or raises, called from the given module at the
  present depth of the stack.\<close>

definition builtin_eval :: "('n, 'v) runtime \<Rightarrow> eval_scope \<Rightarrow> string \<Rightarrow> exn + 'v" where
  "builtin_eval rt sc src = eval_at rt (stack_depth rt) sc src"

text \<open>Sequencing inside a \<open>try\<close> block: the first exception ends the block.\<close>

definition and_then :: "exn + 'a \<Rightarrow> ('a \<Rightarrow> exn + 'b) \<Rightarrow> exn + 'b" where
  "and_then m f = (case m of Inl e \<Rightarrow> Inl e | Inr x \<Rightarrow> f x)"

fun starts_with :: "string \<Rightarrow> string \<Rightarrow> bool" where
  "starts_with [] s = True"
| "starts_with (a # as) [] = False"
| "starts_with (a # as) (b # bs) = (a = b \<and> starts_with as bs)"

text \<open>\<open>t in s\<close> for two strings: \<open>t\<close> occurs in \<open>s\<close> as a contiguous run.\<close>

fun is_substr :: "string \<Rightarrow> string \<Rightarrow> bool" where
  "is_substr t [] = (t = [])"
| "is_substr t (c # cs) = (starts_with t (c # cs) \<or> is_substr t cs)"

text \<open>\<open>s.lower()\<close>, exact on ASCII; bytes of other code points are left as they are.\<close>

definition lower_char :: "char \<Rightarrow> char" where
  "lower_char c = (if c \<in> set ''ABCDEFGHIJKLMNOPQRSTUVWXYZ''
     then char_of (of_char c + (32::nat)) else c)"

definition py_lower :: "string \<Rightarrow> string" where
  "py_lower s = map lower_char s"

text \<open>\<open>s.replace(a, b)\<close> for single characters \<open>a\<close> and \<open>b\<close>.\<close>

definition py_replace :: "char \<Rightarrow> char \<Rightarrow> string \<Rightarrow> string" where
  "py_replace a b s = map (\<lambda>c. if c = a then b else c) s"

definition type_name :: "('n, 'v) runtime \<Rightarrow> 'n json \<Rightarrow> string" where
  "type_name rt v = (case v of
     JNull \<Rightarrow> ''NoneType'' | JBool b \<Rightarrow> ''bool'' | JNum n \<Rightarrow> num_type_name rt n
   | JStr s \<Rightarrow> ''str'' | JArr xs \<Rightarrow> ''list'' | JObj kvs \<Rightarrow> ''dict'')"

text \<open>\<open>str(v)\<close>, as an f-string field \<open>{v}\<close> formats a decoded JSON value.\<close>

definition str_json :: "('n, 'v) runtime \<Rightarrow> 'n json \<Rightarrow> exn + string" where
  "str_json rt v = (case v of
     JNull \<Rightarrow> Inr ''None'' | JBool b \<Rightarrow> Inr (if b then ''True'' else ''False'')
   | JNum n \<Rightarrow> num_str rt n | JStr s \<Rightarrow> Inr s
   | JArr xs \<Rightarrow> repr_container rt v | JObj kvs \<Rightarrow> repr_container rt v)"

text \<open>An f-string: its pieces, literal text and replacement fields, are evaluated from
  left to right and joined; the first piece that raises ends the evaluation. A replacement
  field \<open>{expr}\<close> evaluates the expression and formats its value with \<open>str\<close>.\<close>

fun f_string :: "(exn + string) list \<Rightarrow> exn + string" where
  "f_string [] = Inr []"
| "f_string (p # ps) = and_then p (\<lambda>s. and_then (f_string ps) (\<lambda>t. Inr (s @ t)))"

definition str_field :: "('n, 'v) runtime \<Rightarrow> exn + 'n json \<Rightarrow> exn + string" where
  "str_field rt m = and_then m (str_json rt)"

text \<open>Truth value of a decoded JSON value (\<open>if v\<close>, \<open>not v\<close>, \<open>a and b\<close>).\<close>

definition truthy :: "('n, 'v) runtime \<Rightarrow> 'n json \<Rightarrow> bool" where
  "truthy rt v = (case v of
     JNull \<Rightarrow> False | JBool b \<Rightarrow> b | JNum n \<Rightarrow> num_truthy rt n
   | JStr s \<Rightarrow> s \<noteq> [] | JArr xs \<Rightarrow> xs \<noteq> [] | JObj kvs \<Rightarrow> kvs \<noteq> [])"

text \<open>\<open>key in v\<close> for a string \<open>key\<close>: key membership in a dict, element membership in
  a list, substring test in a string, \<open>TypeError\<close> otherwise.\<close>

definition py_in :: "('n, 'v) runtime \<Rightarrow> string \<Rightarrow> 'n json \<Rightarrow> exn + bool" where
  "py_in rt key v = (case v of
     JObj kvs \<Rightarrow> Inr (map_of kvs key \<noteq> None)
   | JArr xs \<Rightarrow> Inr (JStr key \<in> set xs)
   | JStr s \<Rightarrow> Inr (is_substr key s)
   | _ \<Rightarrow> Inl (Exn TypeError (''argument of type '' @ [CHR 0x27] @ type_name rt v @ [CHR 0x27]
                 @ '' is not iterable'')))"

text \<open>\<open>v[key]\<close> for a string \<open>key\<close>.\<close>

definition py_getitem :: "('n, 'v) runtime \<Rightarrow> 'n json \<Rightarrow> string \<Rightarrow> exn + 'n json" where
  "py_getitem rt v key = (case v of
     JObj kvs \<Rightarrow> (case map_of kvs key of
         Some x \<Rightarrow> Inr x
       | None \<Rightarrow> Inl (Exn KeyError ([CHR 0x27] @ key @ [CHR 0x27])))
   | JArr xs \<Rightarrow> Inl (Exn TypeError ''list indices must be integers or slices, not str'')
   | JStr s \<Rightarrow> Inl (Exn TypeError (''string indices must be integers, not ''
                 @ [CHR 0x27] @ ''str'' @ [CHR 0x27]))
   | _ \<Rightarrow> Inl (Exn TypeError ([CHR 0x27] @ type_name rt v @ [CHR 0x27]
                 @ '' object is not subscriptable'')))"

text \<open>The first code point of a non-empty UTF-8 string: its lead byte and the
  continuation bytes (\<open>0x80\<close> to \<open>0xBF\<close>) after it.\<close>

definition is_continuation :: "char \<Rightarrow> bool" where
  "is_continuation c = (128 \<le> (of_char c :: nat) \<and> (of_char c :: nat) < 192)"

definition first_char :: "string \<Rightarrow> string" where
  "first_char s = (case s of [] \<Rightarrow> [] | c # cs \<Rightarrow> c # takeWhile is_continuation cs)"

text \<open>\<open>v[0]\<close>.\<close>

definition py_getitem0 :: "('n, 'v) runtime \<Rightarrow> 'n json \<Rightarrow> exn + 'n json" where
  "py_getitem0 rt v = (case v of
     JArr xs \<Rightarrow> (case xs of [] \<Rightarrow> Inl (Exn IndexError ''list index out of range'')
                  | x # _ \<Rightarrow> Inr x)
   | JStr s \<Rightarrow> (if s = [] then Inl (Exn IndexError ''string index out of range'')
                else Inr (JStr (first_char s)))
   | JObj kvs \<Rightarrow> Inl (Exn KeyError ''0'')
   | _ \<Rightarrow> Inl (Exn TypeError ([CHR 0x27] @ type_name rt v @ [CHR 0x27]
                 @ '' object is not subscriptable'')))"

text \<open>\<open>v.get(key, default)\<close>: only a dict has the method.\<close>

definition py_get :: "('n, 'v) runtime \<Rightarrow> 'n json \<Rightarrow> string \<Rightarrow> 'n json \<Rightarrow> exn + 'n json" where
  "py_get rt v key dflt = (case v of
     JObj kvs \<Rightarrow> Inr (case map_of kvs key of Some x \<Rightarrow> x | None \<Rightarrow> dflt)
   | _ \<Rightarrow> Inl (Exn AttributeError ([CHR 0x27] @ type_name rt v @ [CHR 0x27]
                 @ '' object has no attribute '' @ [CHR 0x27] @ ''get'' @ [CHR 0x27])))"

text \<open>\<open>len(v) > 0\<close>.\<close>

definition py_len_positive :: "('n, 'v) runtime \<Rightarrow> 'n json \<Rightarrow> exn + bool" where
  "py_len_positive rt v = (case v of
     JArr xs \<Rightarrow> Inr (xs \<noteq> [])
   | JStr s \<Rightarrow> Inr (s \<noteq> [])
   | JObj kvs \<Rightarrow> Inr (kvs \<noteq> [])
   | _ \<Rightarrow> Inl (Exn TypeError (''object of type '' @ [CHR 0x27] @ type_name rt v @ [CHR 0x27]
                 @ '' has no len()'')))"

section \<open>The operations on the world\<close>

definition os_getenv :: "'n world \<Rightarrow> string \<Rightarrow> string option" where
  "os_getenv w name = environ w name"

text \<open>What a call \<open>requests.get\<close> of a request raises or returns in a world, and the world
  after the call: the call is logged, and so are the GETs it sent.\<close>

definition reply :: "'n world \<Rightarrow> request \<Rightarrow> exn + 'n response" where
  "reply w req = answer (remote w (http_log w) req)"

definition after_get :: "request \<Rightarrow> 'n world \<Rightarrow> 'n world" where
  "after_get req w = w\<lparr>call_log := call_log w @ [req],
                        http_log := http_log w @ sent (remote w (http_log w) req)\<rparr>"

definition requests_get :: "request \<Rightarrow> 'n world \<Rightarrow> (exn + 'n response) \<times> 'n world" where
  "requests_get req w = (reply w req, after_get req w)"

text \<open>\<open>response.raise_for_status(); data = response.json()\<close> on what \<open>requests.get\<close>
  gave.\<close>

definition response_data :: "exn + 'n response \<Rightarrow> exn + 'n json" where
  "response_data r = and_then r (\<lambda>resp.
     case status_error resp of
       Some msg \<Rightarrow> Inl (Exn RequestException msg)
     | None \<Rightarrow> json_body resp)"

text \<open>\<open>random.choice(xs)\<close> on a non-empty list: one draw of the generator selects the
  element.\<close>

definition random_choice :: "'a list \<Rightarrow> 'n world \<Rightarrow> 'a \<times> 'n world" where
  "random_choice xs w =
     (xs ! (rng_seq w (rng_pos w) mod length xs), w\<lparr>rng_pos := rng_pos w + 1\<rparr>)"

text \<open>The description of the host that module \<open>platform\<close> gives: from its cache, or
  else after running its commands, whose answer it caches.\<close>

definition platform_describe :: "'n world \<Rightarrow> host \<times> 'n world" where
  "platform_describe w =
     (machine w,
      if platform_cached w then w
      else w\<lparr>platform_cached := True,
             process_log := process_log w @ probe_commands (machine w)\<rparr>)"

text \<open>\<open>print(s)\<close>: the line is written to standard output, or the write raises and
  nothing is written.\<close>

definition print_line :: "string \<Rightarrow> 'n world \<Rightarrow> (exn + unit) \<times> 'n world" where
  "print_line s w = (case stdout_fault w s of
     None \<Rightarrow> (Inr (), w\<lparr>stdout := stdout w @ [s]\<rparr>)
   | Some e \<Rightarrow> (Inl e, w))"

text \<open>A call \<open>eval(expression)\<close> on a text within the allow-list: it is recorded in the
  log, and the warnings of the compiler go to standard error.\<close>

definition after_eval ::
  "('n, 'v) runtime \<Rightarrow> eval_scope \<Rightarrow> string \<Rightarrow> 'n world \<Rightarrow> 'n world" where
  "after_eval rt sc src w =
     w\<lparr>stderr := stderr w @ eval_warnings rt sc src, eval_log := eval_log w @ [(sc, src)]\<rparr>"

definition py_eval ::
  "('n, 'v) runtime \<Rightarrow> eval_scope \<Rightarrow> string \<Rightarrow> 'n world \<Rightarrow> (exn + 'v) \<times> 'n world" where
  "py_eval rt sc src w = (builtin_eval rt sc src, after_eval rt sc src w)"

text \<open>A call \<open>eval(expression, {"__builtins__": {}}, {})\<close> from the given frame, recorded
  in the log before the expression runs.\<close>

definition restricted_call ::
  "('n, 'v) runtime \<Rightarrow> frame \<Rightarrow> string \<Rightarrow> 'n world \<Rightarrow> 'v outcome \<times> 'n world" where
  "restricted_call rt fr src w =
     restricted_eval rt fr src (w\<lparr>eval_log := eval_log w @ [(RestrictedScope, src)]\<rparr>)"

text \<open>Sequencing of code that may run arbitrary Python, and \<open>except Exception as e\<close>
  around it: an exception outside \<open>Exception\<close> passes through the handler.\<close>

definition then_do ::
  "'a outcome \<times> 'n world \<Rightarrow> ('a \<Rightarrow> 'n world \<Rightarrow> 'b outcome \<times> 'n world)
     \<Rightarrow> 'b outcome \<times> 'n world" where
  "then_do p f = (case fst p of
     Returns x \<Rightarrow> f x (snd p)
   | Raises e \<Rightarrow> (Raises e, snd p)
   | Exits b \<Rightarrow> (Exits b, snd p))"

definition catch_Exception ::
  "'a outcome \<times> 'n world \<Rightarrow> (exn \<Rightarrow> 'n world \<Rightarrow> 'a outcome \<times> 'n world)
     \<Rightarrow> 'a outcome \<times> 'n world" where
  "catch_Exception p handler = (case fst p of
     Returns x \<Rightarrow> p
   | Raises e \<Rightarrow> handler e (snd p)
   | Exits b \<Rightarrow> p)"

text \<open>The emoji of the messages, as UTF-8.\<close>

definition cross_mark :: string where "cross_mark = [CHR 0xE2, CHR 0x9D, CHR 0x8C]"
definition money_bag :: string where "money_bag = [CHR 0xF0, CHR 0x9F, CHR 0x92, CHR 0xB0]"
definition sun_cloud :: string where
  "sun_cloud = [CHR 0xF0, CHR 0x9F, CHR 0x8C, CHR 0xA4, CHR 0xEF, CHR 0xB8, CHR 0x8F]"
definition sweat_smile :: string where "sweat_smile = [CHR 0xF0, CHR 0x9F, CHR 0x98, CHR 0x85]"
definition smile :: string where "smile = [CHR 0xF0, CHR 0x9F, CHR 0x98, CHR 0x84]"
definition brain :: string where "brain = [CHR 0xF0, CHR 0x9F, CHR 0xA7, CHR 0xA0]"
definition open_book :: string where "open_book = [CHR 0xF0, CHR 0x9F, CHR 0x93, CHR 0x96]"
definition link_sign :: string where "link_sign = [CHR 0xF0, CHR 0x9F, CHR 0x94, CHR 0x97]"
definition abacus :: string where "abacus = [CHR 0xF0, CHR 0x9F, CHR 0xA7, CHR 0xAE]"
definition degree_sign :: string where "degree_sign = [CHR 0xC2, CHR 0xB0]"

text \<open>The two exception handlers of the tools that call the remote services:
  \<open>except Exception as e\<close> catches every exception the \<open>try\<close> block can raise there and
  returns what the handler computes from \<open>e\<close>; \<open>except requests.RequestException as e\<close>
  lets every other exception propagate.\<close>

definition except_Exception :: "exn + 'a \<Rightarrow> (exn \<Rightarrow> 'a) \<Rightarrow> exn + 'a" where
  "except_Exception body handler = (case body of Inr x \<Rightarrow> Inr x | Inl e \<Rightarrow> Inr (handler e))"

definition except_RequestException :: "exn + 'a \<Rightarrow> (exn \<Rightarrow> 'a) \<Rightarrow> exn + 'a" where
  "except_RequestException body handler = (case body of
     Inr x \<Rightarrow> Inr x
   | Inl e \<Rightarrow> (if exc_cls e = RequestException then Inr (handler e) else Inl e))"

definition newline :: string where "newline = [CHR 0x0A]"
definition quote :: string where "quote = [CHR 0x27]"

section \<open>The tools of \<open>demo_tools.py\<close>\<close>

subsection \<open>\<open>convert_currency\<close>\<close>

text \<open>The body of the \<open>try\<close> block after \<open>requests.get\<close> returned \<open>r\<close>.\<close>

definition demo_tools_convert_currency_try ::
  "('n, 'v) runtime \<Rightarrow> 'n \<Rightarrow> string \<Rightarrow> string \<Rightarrow> exn + 'n response \<Rightarrow> exn + string" where
  "demo_tools_convert_currency_try rt amount from_currency to_currency r =
     and_then (response_data r) (\<lambda>data.
     and_then (py_in rt ''rates'' data) (\<lambda>has_rates.
     and_then (if has_rates
               then and_then (py_getitem rt data ''rates'') (py_in rt to_currency)
               else Inr False) (\<lambda>found.
     if found then
       and_then (py_getitem rt data ''rates'') (\<lambda>rates.
       and_then (py_getitem rt rates to_currency) (\<lambda>rate.
       and_then (py_mul rt amount rate) (\<lambda>converted_amount.
       f_string [Inr (money_bag @ '' ''), num_str rt amount,
                 Inr ('' '' @ from_currency @ '' = ''), format_fixed rt 2 converted_amount,
                 Inr ('' '' @ to_currency @ '' (Rate: ''), format_fixed rt 4 rate,
                 Inr '')''])))
     else
       Inr (cross_mark @ '' Could not find exchange rate for '' @ from_currency
            @ '' to '' @ to_currency))))"

definition demo_tools_convert_currency_request :: "string \<Rightarrow> request" where
  "demo_tools_convert_currency_request from_currency =
     \<lparr>url = ''https://api.exchangerate-api.com/v4/latest/'' @ from_currency,
      headers = [], timeout = Some 10\<rparr>"

definition demo_tools_convert_currency ::
  "('n, 'v) runtime \<Rightarrow> 'n \<Rightarrow> string \<Rightarrow> string \<Rightarrow> 'n world \<Rightarrow> (exn + string) \<times> 'n world" where
  "demo_tools_convert_currency rt amount from_currency to_currency w =
     (let (r, w1) = requests_get (demo_tools_convert_currency_request from_currency) w
      in (except_Exception
            (demo_tools_convert_currency_try rt amount from_currency to_currency r)
            (\<lambda>e. cross_mark @ '' Error fetching exchange rate: '' @ exc_text e), w1))"

subsection \<open>\<open>get_weather\<close>\<close>

definition demo_tools_get_weather_try ::
  "('n, 'v) runtime \<Rightarrow> bool \<Rightarrow> exn + 'n response \<Rightarrow> exn + string" where
  "demo_tools_get_weather_try rt celsius r =
     and_then (response_data r) (\<lambda>data.
     and_then (py_in rt ''error'' data) (\<lambda>has_error.
     if has_error then
       f_string [Inr (cross_mark @ '' Weather API error: ''),
                 str_field rt (and_then (py_getitem rt data ''error'')
                                 (\<lambda>err. py_getitem rt err ''info''))]
     else
       and_then (py_getitem rt data ''current'') (\<lambda>current.
       and_then (py_getitem rt data ''location'') (\<lambda>location_info.
       let temp_unit = degree_sign @ (if celsius then ''C'' else ''F'') in
       f_string [Inr (sun_cloud @ '' Weather in ''),
                 str_field rt (py_getitem rt location_info ''name''),
                 Inr '', '',
                 str_field rt (py_getitem rt location_info ''country''),
                 Inr ('':'' @ newline @ ''   ''),
                 str_field rt (and_then (py_getitem rt current ''weather_descriptions'')
                                 (py_getitem0 rt)),
                 Inr (newline @ ''   Temperature: ''),
                 str_field rt (py_getitem rt current ''temperature''),
                 Inr (temp_unit @ '' (feels like ''),
                 str_field rt (py_getitem rt current ''feelslike''),
                 Inr (temp_unit @ '')'' @ newline @ ''   Humidity: ''),
                 str_field rt (py_getitem rt current ''humidity''),
                 Inr ''%, Wind: '',
                 str_field rt (py_getitem rt current ''wind_speed''),
                 Inr '' km/h'']))))"

definition demo_tools_get_weather_request :: "string \<Rightarrow> string \<Rightarrow> bool \<Rightarrow> request" where
  "demo_tools_get_weather_request api_key location celsius =
     (let units = (if celsius then ''m'' else ''f'')
      in \<lparr>url = ''http://api.weatherstack.com/current?access_key='' @ api_key
                 @ ''&query='' @ location @ ''&units='' @ units,
           headers = [], timeout = Some 10\<rparr>)"

text \<open>\<open>if not api_key\<close> holds when the variable is unset and when it is empty.\<close>

definition demo_tools_get_weather ::
  "('n, 'v) runtime \<Rightarrow> string \<Rightarrow> bool \<Rightarrow> 'n world \<Rightarrow> (exn + string) \<times> 'n world" where
  "demo_tools_get_weather rt location celsius w =
     (case os_getenv w ''WEATHERSTACK_API_KEY'' of
        None \<Rightarrow> (Inr (cross_mark @ '' Weather API key not configured. ''
                         @ ''Please add WEATHERSTACK_API_KEY to your .env file.''), w)
      | Some api_key \<Rightarrow>
          if api_key = [] then
            (Inr (cross_mark @ '' Weather API key not configured. ''
                  @ ''Please add WEATHERSTACK_API_KEY to your .env file.''), w)
          else
            (let (r, w1) = requests_get (demo_tools_get_weather_request api_key location celsius) w
             in (except_Exception (demo_tools_get_weather_try rt celsius r)
                   (\<lambda>e. cross_mark @ '' Error fetching weather: '' @ exc_text e), w1)))"

subsection \<open>\<open>get_joke\<close>\<close>

definition fallback_jokes :: "string list" where
  "fallback_jokes =
     [''Why do programmers prefer dark mode? Because light attracts bugs!'',
      ''How many programmers does it take to change a light bulb? None, that's a hardware problem!'',
      ''Why do Java developers wear glasses? Because they don't C#!'']"

definition demo_tools_get_joke_try ::
  "('n, 'v) runtime \<Rightarrow> exn + 'n response \<Rightarrow> exn + string" where
  "demo_tools_get_joke_try rt r =
     and_then (response_data r) (\<lambda>data.
     and_then (py_get rt data ''error'' JNull) (\<lambda>err.
     if truthy rt err then
       Inr (sweat_smile @ '' Sorry, couldn't fetch a joke right now.'')
     else
       and_then (py_getitem rt data ''type'') (\<lambda>ty.
       if ty = JStr ''single'' then
         f_string [Inr (smile @ '' ''), str_field rt (py_getitem rt data ''joke'')]
       else
         f_string [Inr (smile @ '' ''), str_field rt (py_getitem rt data ''setup''),
                   Inr (newline @ ''   ''), str_field rt (py_getitem rt data ''delivery'')])))"

definition demo_tools_get_joke_request :: request where
  "demo_tools_get_joke_request =
     \<lparr>url = ''https://v2.jokeapi.dev/joke/Programming?safe-mode&type=single'',
      headers = [], timeout = Some 10\<rparr>"

definition demo_tools_get_joke ::
  "('n, 'v) runtime \<Rightarrow> 'n world \<Rightarrow> (exn + string) \<times> 'n world" where
  "demo_tools_get_joke rt w =
     (let (r, w1) = requests_get demo_tools_get_joke_request w
      in case demo_tools_get_joke_try rt r of
           Inr s \<Rightarrow> (Inr s, w1)
         | Inl e \<Rightarrow>
             (let (joke, w2) = random_choice fallback_jokes w1
              in (Inr (smile @ '' '' @ joke), w2)))"

subsection \<open>\<open>get_random_fact\<close>\<close>

definition fallback_facts :: "string list" where
  "fallback_facts =
     [''The first computer bug was an actual bug - a moth trapped in a Harvard Mark II computer in 1947.'',
      ''Python was named after the British comedy group Monty Python, not the snake.'',
      ''The term 'debugging' was popularized by Admiral Grace Hopper in the 1940s.'',
      ''The first programmer was Ada Lovelace, who wrote the first algorithm for Charles Babbage's Analytical Engine in 1843.'',
      ''The '@' symbol was used in email addresses for the first time by Ray Tomlinson in 1971.'']"

text \<open>The \<open>try\<close> block returns from the function (\<open>Some\<close>) or falls through to the
  fallback below it (\<open>None\<close>).\<close>

definition demo_tools_get_random_fact_try ::
  "('n, 'v) runtime \<Rightarrow> exn + 'n response \<Rightarrow> exn + string option" where
  "demo_tools_get_random_fact_try rt r =
     and_then (response_data r) (\<lambda>data.
     and_then (py_in rt ''text'' data) (\<lambda>has_text.
     if has_text then
       and_then (f_string [Inr (brain @ '' Random Fact: ''),
                           str_field rt (py_getitem rt data ''text'')])
         (\<lambda>s. Inr (Some s))
     else Inr None))"

definition demo_tools_get_random_fact_fallback :: "'n world \<Rightarrow> (exn + string) \<times> 'n world" where
  "demo_tools_get_random_fact_fallback w =
     (let (fact, w') = random_choice fallback_facts w
      in (Inr (brain @ '' Random Fact: '' @ fact), w'))"

definition demo_tools_get_random_fact_request :: request where
  "demo_tools_get_random_fact_request =
     \<lparr>url = ''https://uselessfacts.jsph.pl/random.json?language=en'',
      headers = [(''User-Agent'',
                  ''Mozilla/5.0 (Windows NT 10.0; Win64; x64) AppleWebKit/537.36'')],
      timeout = Some 10\<rparr>"

text \<open>The \<open>print\<close> of the \<open>except\<close> clause is inside no \<open>try\<close> block: what it raises
  leaves the function.\<close>

definition demo_tools_get_random_fact ::
  "('n, 'v) runtime \<Rightarrow> 'n world \<Rightarrow> (exn + string) \<times> 'n world" where
  "demo_tools_get_random_fact rt w =
     (let (r, w1) = requests_get demo_tools_get_random_fact_request w
      in case demo_tools_get_random_fact_try rt r of
           Inr (Some s) \<Rightarrow> (Inr s, w1)
         | Inr None \<Rightarrow> demo_tools_get_random_fact_fallback w1
         | Inl e \<Rightarrow>
             (let (printed, w2) = print_line (''Primary fact API failed: '' @ exc_text e) w1
              in case printed of
                   Inl e' \<Rightarrow> (Inl e', w2)
                 | Inr u \<Rightarrow> demo_tools_get_random_fact_fallback w2))"

subsection \<open>\<open>search_wikipedia\<close>\<close>

definition demo_tools_search_wikipedia_try ::
  "('n, 'v) runtime \<Rightarrow> string \<Rightarrow> exn + 'n response \<Rightarrow> exn + string" where
  "demo_tools_search_wikipedia_try rt query r =
     and_then (response_data r) (\<lambda>data.
     and_then (py_in rt ''extract'' data) (\<lambda>has_extract.
     and_then (if has_extract
               then and_then (py_getitem rt data ''extract'') (\<lambda>x. Inr (truthy rt x))
               else Inr False) (\<lambda>found.
     if found then
       and_then (py_get rt data ''title'' (JStr query)) (\<lambda>title.
       and_then (py_getitem rt data ''extract'') (\<lambda>extract.
       and_then (py_get rt data ''content_urls'' (JObj [])) (\<lambda>content_urls.
       and_then (py_get rt content_urls ''desktop'' (JObj [])) (\<lambda>desktop.
       and_then (py_get rt desktop ''page'' (JStr [])) (\<lambda>page_url.
       f_string [Inr (open_book @ '' Wikipedia - ''), str_json rt title,
                 Inr ('':'' @ newline), str_json rt extract,
                 Inr (newline @ newline @ link_sign @ '' Read more: ''),
                 str_json rt page_url])))))
     else
       Inr (cross_mark @ '' No Wikipedia summary found for '' @ quote @ query @ quote
            @ ''.''))))"

definition demo_tools_search_wikipedia_request :: "string \<Rightarrow> request" where
  "demo_tools_search_wikipedia_request query =
     (let headers = [(''User-Agent'',
                      ''SmolagentsDemo/1.0 (https://github.com/huggingface/smolagents)'')];
          search_url = ''https://en.wikipedia.org/api/rest_v1/page/summary/''
                       @ py_replace (CHR '' '') (CHR ''_'') query
      in \<lparr>url = search_url, headers = headers, timeout = Some 10\<rparr>)"

definition demo_tools_search_wikipedia ::
  "('n, 'v) runtime \<Rightarrow> string \<Rightarrow> 'n world \<Rightarrow> (exn + string) \<times> 'n world" where
  "demo_tools_search_wikipedia rt query w =
     (let (r, w1) = requests_get (demo_tools_search_wikipedia_request query) w
      in (except_Exception (demo_tools_search_wikipedia_try rt query r)
            (\<lambda>e. cross_mark @ '' Error searching Wikipedia: '' @ exc_text e), w1))"

section \<open>The tools of \<open>local_multiple_tools.py\<close>\<close>

subsection \<open>\<open>get_weather\<close>\<close>

text \<open>Here \<open>celsius\<close> has type \<open>bool | None\<close>; \<open>None\<close> counts as false.\<close>

definition local_multiple_tools_get_weather_try ::
  "('n, 'v) runtime \<Rightarrow> bool option \<Rightarrow> exn + 'n response \<Rightarrow> exn + string" where
  "local_multiple_tools_get_weather_try rt celsius r =
     and_then (response_data r) (\<lambda>data.
     and_then (py_in rt ''error'' data) (\<lambda>has_error.
     if has_error then
       f_string [Inr ''Error fetching weather data: '',
                 str_field rt (and_then (py_getitem rt data ''error'')
                                 (\<lambda>err. py_getitem rt err ''info''))]
     else
       and_then (py_getitem rt data ''current'') (\<lambda>current.
       and_then (py_getitem rt data ''location'') (\<lambda>location_info.
       let temp_unit = degree_sign @ (if celsius = Some True then ''C'' else ''F'') in
       f_string [Inr ''Weather in '',
                 str_field rt (py_getitem rt location_info ''name''),
                 Inr '', '',
                 str_field rt (py_getitem rt location_info ''country''),
                 Inr '': '',
                 str_field rt (and_then (py_getitem rt current ''weather_descriptions'')
                                 (py_getitem0 rt)),
                 Inr '', Temperature: '',
                 str_field rt (py_getitem rt current ''temperature''),
                 Inr (temp_unit @ '', Feels like: ''),
                 str_field rt (py_getitem rt current ''feelslike''),
                 Inr (temp_unit @ '', Humidity: ''),
                 str_field rt (py_getitem rt current ''humidity''),
                 Inr ''%'']))))"

definition local_multiple_tools_get_weather_request ::
  "string \<Rightarrow> string \<Rightarrow> bool option \<Rightarrow> request" where
  "local_multiple_tools_get_weather_request api_key location celsius =
     (let units = (if celsius = Some True then ''m'' else ''f'')
      in \<lparr>url = ''http://api.weatherstack.com/current?access_key='' @ api_key
                 @ ''&query='' @ location @ ''&units='' @ units,
           headers = [], timeout = None\<rparr>)"

definition local_multiple_tools_get_weather ::
  "('n, 'v) runtime \<Rightarrow> string \<Rightarrow> bool option \<Rightarrow> 'n world \<Rightarrow> (exn + string) \<times> 'n world" where
  "local_multiple_tools_get_weather rt location celsius w =
     (case os_getenv w ''WEATHERSTACK_API_KEY'' of
        None \<Rightarrow> (Inr (''Weather API key not configured. ''
                         @ ''Please add WEATHERSTACK_API_KEY to your .env file.''), w)
      | Some api_key \<Rightarrow>
          if api_key = [] then
            (Inr (''Weather API key not configured. ''
                  @ ''Please add WEATHERSTACK_API_KEY to your .env file.''), w)
          else
            (let (r, w1) = requests_get
                            (local_multiple_tools_get_weather_request api_key location celsius) w
             in (except_RequestException (local_multiple_tools_get_weather_try rt celsius r)
                   (\<lambda>e. ''Error fetching weather data: '' @ exc_text e), w1)))"

subsection \<open>\<open>convert_currency\<close>\<close>

text \<open>\<open>if api_key\<close>: the variable \<open>EXCHANGE_API_KEY\<close> is set and not empty.\<close>

definition has_key :: "string option \<Rightarrow> bool" where
  "has_key api_key = (case api_key of None \<Rightarrow> False | Some k \<Rightarrow> k \<noteq> [])"

definition local_multiple_tools_convert_currency_try ::
  "('n, 'v) runtime \<Rightarrow> string option \<Rightarrow> 'n \<Rightarrow> string \<Rightarrow> string \<Rightarrow> exn + 'n response
     \<Rightarrow> exn + string" where
  "local_multiple_tools_convert_currency_try rt api_key amount from_currency to_currency r =
     and_then (response_data r) (\<lambda>data.
     if has_key api_key then
       and_then (py_in rt ''result'' data) (\<lambda>has_result.
       and_then (if has_result
                 then and_then (py_getitem rt data ''result'') (\<lambda>x. Inr (x = JStr ''success''))
                 else Inr False) (\<lambda>success.
       if success then
         and_then (py_getitem rt data ''conversion_rate'') (\<lambda>rate.
         and_then (py_mul rt amount rate) (\<lambda>converted_amount.
         f_string [num_str rt amount, Inr ('' '' @ from_currency @ '' = ''),
                   format_fixed rt 2 converted_amount,
                   Inr ('' '' @ to_currency @ '' (Rate: ''), str_json rt rate, Inr '')'']))
       else
         f_string [Inr ''Error: '',
                   str_field rt (py_get rt data ''error-type'' (JStr ''Unknown error''))]))
     else
       and_then (py_in rt ''rates'' data) (\<lambda>has_rates.
       and_then (if has_rates
                 then and_then (py_getitem rt data ''rates'') (py_in rt to_currency)
                 else Inr False) (\<lambda>found.
       if found then
         and_then (py_getitem rt data ''rates'') (\<lambda>rates.
         and_then (py_getitem rt rates to_currency) (\<lambda>rate.
         and_then (py_mul rt amount rate) (\<lambda>converted_amount.
         f_string [num_str rt amount, Inr ('' '' @ from_currency @ '' = ''),
                   format_fixed rt 2 converted_amount,
                   Inr ('' '' @ to_currency @ '' (Rate: ''), str_json rt rate, Inr '')''])))
       else
         Inr (''Error: Could not find exchange rate for '' @ from_currency
              @ '' to '' @ to_currency))))"

definition local_multiple_tools_convert_currency_request ::
  "string option \<Rightarrow> string \<Rightarrow> string \<Rightarrow> request" where
  "local_multiple_tools_convert_currency_request api_key from_currency to_currency =
     (let url = (case api_key of
                   None \<Rightarrow> ''https://api.exchangerate-api.com/v4/latest/'' @ from_currency
                 | Some k \<Rightarrow>
                     if k \<noteq> [] then
                       ''https://v6.exchangerate-api.com/v6/'' @ k @ ''/pair/'' @ from_currency
                       @ ''/'' @ to_currency
                     else ''https://api.exchangerate-api.com/v4/latest/'' @ from_currency)
      in \<lparr>url = url, headers = [], timeout = None\<rparr>)"

definition local_multiple_tools_convert_currency ::
  "('n, 'v) runtime \<Rightarrow> 'n \<Rightarrow> string \<Rightarrow> string \<Rightarrow> 'n world \<Rightarrow> (exn + string) \<times> 'n world" where
  "local_multiple_tools_convert_currency rt amount from_currency to_currency w =
     (let api_key = os_getenv w ''EXCHANGE_API_KEY'';
          (r, w1) = requests_get
                      (local_multiple_tools_convert_currency_request api_key from_currency
                         to_currency) w
      in (except_RequestException
            (local_multiple_tools_convert_currency_try rt api_key amount from_currency
               to_currency r)
            (\<lambda>e. ''Error fetching exchange rate: '' @ exc_text e), w1))"

subsection \<open>\<open>get_joke\<close>\<close>

text \<open>The function returns \<open>data["joke"]\<close> itself, whatever value the reply holds
  there, so its result is a Python value.\<close>

definition local_multiple_tools_get_joke_try ::
  "('n, 'v) runtime \<Rightarrow> exn + 'n response \<Rightarrow> exn + 'n json" where
  "local_multiple_tools_get_joke_try rt r =
     and_then (response_data r) (\<lambda>data.
     and_then (py_getitem rt data ''error'') (\<lambda>err.
     if truthy rt err then
       Inr (JStr ''Sorry, couldn't fetch a joke right now.'')
     else
       and_then (py_getitem rt data ''type'') (\<lambda>ty.
       if ty = JStr ''single'' then py_getitem rt data ''joke''
       else
         and_then (f_string [str_field rt (py_getitem rt data ''setup''), Inr '' - '',
                             str_field rt (py_getitem rt data ''delivery'')])
           (\<lambda>s. Inr (JStr s)))))"

definition local_multiple_tools_get_joke_request :: request where
  "local_multiple_tools_get_joke_request =
     \<lparr>url = ''https://v2.jokeapi.dev/joke/Any?safe-mode&type=single'',
      headers = [], timeout = None\<rparr>"

definition local_multiple_tools_get_joke ::
  "('n, 'v) runtime \<Rightarrow> 'n world \<Rightarrow> (exn + 'n json) \<times> 'n world" where
  "local_multiple_tools_get_joke rt w =
     (let (r, w1) = requests_get local_multiple_tools_get_joke_request w
      in (except_RequestException (local_multiple_tools_get_joke_try rt r)
            (\<lambda>e. JStr (''Error fetching joke: '' @ exc_text e)), w1))"

subsection \<open>\<open>get_random_fact\<close>\<close>

definition local_multiple_tools_get_random_fact_try ::
  "('n, 'v) runtime \<Rightarrow> exn + 'n response \<Rightarrow> exn + 'n json" where
  "local_multiple_tools_get_random_fact_try rt r =
     and_then (response_data r) (\<lambda>data.
     and_then (if truthy rt data then py_len_positive rt data else Inr False) (\<lambda>nonempty.
     if nonempty then
       and_then (py_getitem0 rt data) (\<lambda>first. py_getitem rt first ''fact'')
     else Inr (JStr ''Sorry, couldn't fetch a random fact right now.'')))"

definition local_multiple_tools_get_random_fact_request :: "string option \<Rightarrow> request" where
  "local_multiple_tools_get_random_fact_request api_key =
     (let headers = (case api_key of
                       None \<Rightarrow> []
                     | Some k \<Rightarrow> if k \<noteq> [] then [(''X-Api-Key'', k)] else []);
          url = ''https://api.api-ninjas.com/v1/facts''
      in \<lparr>url = url, headers = headers, timeout = None\<rparr>)"

definition local_multiple_tools_get_random_fact ::
  "('n, 'v) runtime \<Rightarrow> 'n world \<Rightarrow> (exn + 'n json) \<times> 'n world" where
  "local_multiple_tools_get_random_fact rt w =
     (let api_key = os_getenv w ''API_NINJAS_KEY'';
          (r, w1) = requests_get (local_multiple_tools_get_random_fact_request api_key) w
      in (except_RequestException (local_multiple_tools_get_random_fact_try rt r)
            (\<lambda>e. JStr (''Error fetching random fact: '' @ exc_text e)), w1))"

subsection \<open>\<open>search_wikipedia\<close>\<close>

definition local_multiple_tools_search_wikipedia_try ::
  "('n, 'v) runtime \<Rightarrow> string \<Rightarrow> exn + 'n response \<Rightarrow> exn + string" where
  "local_multiple_tools_search_wikipedia_try rt query r =
     and_then (response_data r) (\<lambda>data.
     and_then (py_in rt ''extract'' data) (\<lambda>has_extract.
     if has_extract then
       f_string [Inr (''Wikipedia summary for '' @ quote @ query @ quote @ '': ''),
                 str_field rt (py_getitem rt data ''extract'')]
     else
       Inr (''No Wikipedia summary found for '' @ quote @ query @ quote @ ''.'')))"

definition local_multiple_tools_search_wikipedia_request :: "string \<Rightarrow> request" where
  "local_multiple_tools_search_wikipedia_request query =
     \<lparr>url = ''https://en.wikipedia.org/api/rest_v1/page/summary/'' @ query,
      headers = [], timeout = None\<rparr>"

definition local_multiple_tools_search_wikipedia ::
  "('n, 'v) runtime \<Rightarrow> string \<Rightarrow> 'n world \<Rightarrow> (exn + string) \<times> 'n world" where
  "local_multiple_tools_search_wikipedia rt query w =
     (let (r, w1) = requests_get (local_multiple_tools_search_wikipedia_request query) w
      in (except_RequestException (local_multiple_tools_search_wikipedia_try rt query r)
            (\<lambda>e. ''Error searching Wikipedia: '' @ exc_text e), w1))"

section \<open>The arithmetic evaluators\<close>

subsection \<open>\<open>calculate\<close> of \<open>demo_tools.py\<close> and of \<open>local_multiple_tools.py\<close>\<close>

definition allowed_chars :: "char set" where
  "allowed_chars = set ''0123456789+-*/.() ''"

text \<open>\<open>all(c in allowed_chars for c in expression)\<close>\<close>

definition all_allowed :: "string \<Rightarrow> bool" where
  "all_allowed expression = list_all (\<lambda>c. c \<in> allowed_chars) expression"

definition dangerous_terms :: "string list" where
  "dangerous_terms = [''__'', ''import'', ''exec'', ''eval'', ''open'', ''file'']"

text \<open>\<open>any(term in expression.lower() for term in dangerous_terms)\<close>\<close>

definition has_dangerous_term :: "string \<Rightarrow> bool" where
  "has_dangerous_term expression =
     list_ex (\<lambda>term. is_substr term (py_lower expression)) dangerous_terms"

definition invalid_characters_message :: string where
  "invalid_characters_message =
     ''Invalid characters in expression. Only numbers and basic math operators are allowed.''"

definition demo_tools_calculate ::
  "('n, 'v) runtime \<Rightarrow> string \<Rightarrow> 'n world \<Rightarrow> (exn + string) \<times> 'n world" where
  "demo_tools_calculate rt expression w =
     (if \<not> all_allowed expression then
        (Inr (cross_mark @ '' '' @ invalid_characters_message), w)
      else if has_dangerous_term expression then
        (Inr (cross_mark @ '' Invalid expression detected.''), w)
      else
        (let (r, w1) = py_eval rt (ModuleScope ''demo_tools'') expression w in
         case and_then r (str_value rt) of
           Inr result \<Rightarrow> (Inr (abacus @ '' '' @ expression @ '' = '' @ result), w1)
         | Inl e \<Rightarrow> (Inr (cross_mark @ '' Error calculating '' @ quote @ expression
                       @ quote @ '': '' @ exc_text e), w1)))"

definition local_multiple_tools_calculate ::
  "('n, 'v) runtime \<Rightarrow> string \<Rightarrow> 'n world \<Rightarrow> (exn + string) \<times> 'n world" where
  "local_multiple_tools_calculate rt expression w =
     (if \<not> all_allowed expression then
        (Inr (''Error: '' @ invalid_characters_message), w)
      else
        (let (r, w1) = py_eval rt (ModuleScope ''local_multiple_tools'') expression w in
         case and_then r (str_value rt) of
           Inr result \<Rightarrow> (Inr (expression @ '' = '' @ result), w1)
         | Inl e \<Rightarrow> (Inr (''Error calculating '' @ quote @ expression
                       @ quote @ '': '' @ exc_text e), w1)))"

subsection \<open>The evaluators with emptied built-ins\<close>

text \<open>
  \<open>simple_calculator\<close> of \<open>simple_demo.py\<close> and \<open>calculate\<close> of \<open>my_gradio_demo.py\<close> and
  of \<open>my_agent_demo.py\<close>: the \<open>try\<close> block calls \<open>eval\<close> and formats the result into the
  returned string; the handler of \<open>except Exception as e\<close> formats \<open>str(e)\<close>, inside no
  \<open>try\<close> block of its own.
\<close>

definition simple_calculator_frame :: frame where
  "simple_calculator_frame =
     \<lparr>frame_module = ''simple_demo'', frame_function = ''simple_calculator''\<rparr>"

definition my_gradio_demo_frame :: frame where
  "my_gradio_demo_frame = \<lparr>frame_module = ''my_gradio_demo'', frame_function = ''calculate''\<rparr>"

definition my_agent_demo_frame :: frame where
  "my_agent_demo_frame = \<lparr>frame_module = ''my_agent_demo'', frame_function = ''calculate''\<rparr>"

definition simple_demo_simple_calculator ::
  "('n, 'v) runtime \<Rightarrow> string \<Rightarrow> 'n world \<Rightarrow> string outcome \<times> 'n world" where
  "simple_demo_simple_calculator rt expression w =
     catch_Exception
       (then_do (restricted_call rt simple_calculator_frame expression w) (\<lambda>result w1.
        then_do (format_value rt result w1) (\<lambda>text w2.
        (Returns (''Result: '' @ text), w2))))
       (\<lambda>e w1. then_do (exception_str rt e w1) (\<lambda>text w2.
        (Returns (''Error: '' @ text), w2)))"

definition my_gradio_demo_calculate ::
  "('n, 'v) runtime \<Rightarrow> string \<Rightarrow> 'n world \<Rightarrow> string outcome \<times> 'n world" where
  "my_gradio_demo_calculate rt expression w =
     catch_Exception
       (then_do (restricted_call rt my_gradio_demo_frame expression w) (\<lambda>result w1.
        then_do (format_value rt result w1) (\<lambda>text w2.
        (Returns (''Result: '' @ text), w2))))
       (\<lambda>e w1. then_do (exception_str rt e w1) (\<lambda>text w2.
        (Returns (''Error: '' @ text), w2)))"

definition my_agent_demo_calculate ::
  "('n, 'v) runtime \<Rightarrow> string \<Rightarrow> 'n world \<Rightarrow> string outcome \<times> 'n world" where
  "my_agent_demo_calculate rt expression w =
     catch_Exception
       (then_do (restricted_call rt my_agent_demo_frame expression w) (\<lambda>result w1.
        then_do (format_value rt result w1) (\<lambda>text w2.
        (Returns (''The result of '' @ expression @ '' is '' @ text), w2))))
       (\<lambda>e w1. then_do (exception_str rt e w1) (\<lambda>text w2.
        (Returns (''Error calculating '' @ expression @ '': '' @ text), w2)))"

section \<open>The two tools without request and without \<open>eval\<close>\<close>

text \<open>\<open>get_system_info\<close> of \<open>simple_demo.py\<close> and \<open>add_numbers\<close> of \<open>quick_start.py\<close>,
  whose arguments are Python integers.\<close>

definition simple_demo_get_system_info :: "'n world \<Rightarrow> (exn + string) \<times> 'n world" where
  "simple_demo_get_system_info w =
     (let (h, w1) = platform_describe w
      in (Inr (''System Information:'' @ newline
               @ ''- OS: '' @ system_name h @ '' '' @ release h @ newline
               @ ''- Python: '' @ python_version h @ newline
               @ ''- Current Time: '' @ local_time h @ newline
               @ ''- Platform: '' @ platform_text h), w1))"

definition quick_start_add_numbers :: "int \<Rightarrow> int \<Rightarrow> 'n world \<Rightarrow> (exn + int) \<times> 'n world" where
  "quick_start_add_numbers a b w = (Inr (a + b), w)"

section \<open>The shape of the replies\<close>

text \<open>
  A reply of the exchange-rate service holds a rate \<open>r\<close> for a currency when it is an
  object whose \<open>rates\<close> member is an object that maps the currency to the number \<open>r\<close>; it
  lacks a rate for the currency when it is an object without a \<open>rates\<close> member, or one
  whose \<open>rates\<close> member is an object without the currency.
\<close>

definition has_rate :: "'n json \<Rightarrow> string \<Rightarrow> 'n \<Rightarrow> bool" where
  "has_rate data to_currency r = (case data of
     JObj kvs \<Rightarrow> (case map_of kvs ''rates'' of
         Some (JObj rates) \<Rightarrow> map_of rates to_currency = Some (JNum r)
       | _ \<Rightarrow> False)
   | _ \<Rightarrow> False)"

definition lacks_rate :: "'n json \<Rightarrow> string \<Rightarrow> bool" where
  "lacks_rate data to_currency = (case data of
     JObj kvs \<Rightarrow> (case map_of kvs ''rates'' of
         None \<Rightarrow> True
       | Some (JObj rates) \<Rightarrow> map_of rates to_currency = None
       | _ \<Rightarrow> False)
   | _ \<Rightarrow> False)"

text \<open>A reply of the facts service has a \<open>text\<close> field when it is an object with a
  \<open>text\<close> member.\<close>

definition has_text :: "'n json \<Rightarrow> bool" where
  "has_text data = (case data of JObj kvs \<Rightarrow> map_of kvs ''text'' \<noteq> None | _ \<Rightarrow> False)"

section \<open>Tool calls\<close>

text \<open>
  A call of one of the tools that evaluate no arbitrary expression, with its arguments: the
  twelve tools of \<open>demo_tools.py\<close> and \<open>local_multiple_tools.py\<close>, \<open>get_system_info\<close> and
  \<open>add_numbers\<close>; and what the call does. A returned string is given as the Python value it
  is.
\<close>

datatype 'n tool_call =
    DemoConvertCurrency 'n string string
  | DemoGetWeather string bool
  | DemoGetJoke
  | DemoGetRandomFact
  | DemoSearchWikipedia string
  | DemoCalculate string
  | LocalGetWeather string "bool option"
  | LocalConvertCurrency 'n string string
  | LocalGetJoke
  | LocalGetRandomFact
  | LocalSearchWikipedia string
  | LocalCalculate string
  | GetSystemInfo
  | AddNumbers int int

datatype 'n py_value = Value "'n json" | Integer int

definition as_value :: "(exn + string) \<times> 'n world \<Rightarrow> (exn + 'n py_value) \<times> 'n world" where
  "as_value p = (case fst p of Inl e \<Rightarrow> Inl e | Inr s \<Rightarrow> Inr (Value (JStr s)), snd p)"

definition as_json :: "(exn + 'n json) \<times> 'n world \<Rightarrow> (exn + 'n py_value) \<times> 'n world" where
  "as_json p = (case fst p of Inl e \<Rightarrow> Inl e | Inr v \<Rightarrow> Inr (Value v), snd p)"

definition as_integer :: "(exn + int) \<times> 'n world \<Rightarrow> (exn + 'n py_value) \<times> 'n world" where
  "as_integer p = (case fst p of Inl e \<Rightarrow> Inl e | Inr i \<Rightarrow> Inr (Integer i), snd p)"

fun invoke ::
  "('n, 'v) runtime \<Rightarrow> 'n tool_call \<Rightarrow> 'n world \<Rightarrow> (exn + 'n py_value) \<times> 'n world" where
  "invoke rt (DemoConvertCurrency amount from_currency to_currency) w =
     as_value (demo_tools_convert_currency rt amount from_currency to_currency w)"
| "invoke rt (DemoGetWeather location celsius) w =
     as_value (demo_tools_get_weather rt location celsius w)"
| "invoke rt DemoGetJoke w = as_value (demo_tools_get_joke rt w)"
| "invoke rt DemoGetRandomFact w = as_value (demo_tools_get_random_fact rt w)"
| "invoke rt (DemoSearchWikipedia query) w = as_value (demo_tools_search_wikipedia rt query w)"
| "invoke rt (DemoCalculate expression) w = as_value (demo_tools_calculate rt expression w)"
| "invoke rt (LocalGetWeather location celsius) w =
     as_value (local_multiple_tools_get_weather rt location celsius w)"
| "invoke rt (LocalConvertCurrency amount from_currency to_currency) w =
     as_value (local_multiple_tools_convert_currency rt amount from_currency to_currency w)"
| "invoke rt LocalGetJoke w = as_json (local_multiple_tools_get_joke rt w)"
| "invoke rt LocalGetRandomFact w = as_json (local_multiple_tools_get_random_fact rt w)"
| "invoke rt (LocalSearchWikipedia query) w =
     as_value (local_multiple_tools_search_wikipedia rt query w)"
| "invoke rt (LocalCalculate expression) w =
     as_value (local_multiple_tools_calculate rt expression w)"
| "invoke rt GetSystemInfo w = as_value (simple_demo_get_system_info w)"
| "invoke rt (AddNumbers a b) w = as_integer (quick_start_add_numbers a b w)"

text \<open>The tools that call \<open>random.choice\<close>, the tool that prints, the tools that call
  \<open>eval\<close>, and the tool that asks the host.\<close>

definition uses_generator :: "'n tool_call \<Rightarrow> bool" where
  "uses_generator c = (case c of DemoGetJoke \<Rightarrow> True | DemoGetRandomFact \<Rightarrow> True | _ \<Rightarrow> False)"

definition prints :: "'n tool_call \<Rightarrow> bool" where
  "prints c = (case c of DemoGetRandomFact \<Rightarrow> True | _ \<Rightarrow> False)"

definition is_calculate :: "'n tool_call \<Rightarrow> bool" where
  "is_calculate c = (case c of DemoCalculate e \<Rightarrow> True | LocalCalculate e \<Rightarrow> True | _ \<Rightarrow> False)"

definition reads_host :: "'n tool_call \<Rightarrow> bool" where
  "reads_host c = (case c of GetSystemInfo \<Rightarrow> True | _ \<Rightarrow> False)"

text \<open>The next draw of the generator.\<close>

definition next_draw :: "'n world \<Rightarrow> nat" where
  "next_draw w = rng_seq w (rng_pos w)"

text \<open>
  Two worlds give a call the same things to read: the environment variables are the same
  and the services answer every request alike; for a tool that calls \<open>random.choice\<close> the
  next draw is the same; for the tool that prints, standard output takes or refuses the
  same lines; for the tool that asks the host, the host and its clock say the same.
\<close>

definition same_reads :: "'n tool_call \<Rightarrow> 'n world \<Rightarrow> 'n world \<Rightarrow> bool" where
  "same_reads c w1 w2 =
     (environ w1 = environ w2 \<and> reply w1 = reply w2
      \<and> (uses_generator c \<longrightarrow> next_draw w1 = next_draw w2)
      \<and> (prints c \<longrightarrow> stdout_fault w1 = stdout_fault w2)
      \<and> (reads_host c \<longrightarrow> machine w1 = machine w2))"

section \<open>Counting requests\<close>

text \<open>
  Between \<open>w\<close> and \<open>w'\<close> at most one call of \<open>requests.get\<close> was made: either both logs
  are as they were, or the log of calls has one entry more and the log of GETs was extended
  by the GETs of that call.
\<close>

definition at_most_one_call :: "'n world \<Rightarrow> 'n world \<Rightarrow> bool" where
  "at_most_one_call w w' =
     (case drop (length (call_log w)) (call_log w') of
        [] \<Rightarrow> call_log w' = call_log w \<and> http_log w' = http_log w
      | req # rest \<Rightarrow>
          rest = [] \<and> call_log w' = call_log w @ [req]
          \<and> http_log w' = http_log w @ sent (remote w (http_log w) req))"

section \<open>A small instance of the interpreter and of the world\<close>

text \<open>
  For evaluating the tools on concrete inputs: numbers are integers, \<open>.Nf\<close> formatting
  appends \<open>N\<close> zero decimals, and \<open>eval\<close> knows a few expressions, with what Python does
  for them; it takes every other text for a syntax error.
\<close>

fun show_nat :: "nat \<Rightarrow> string" where
  "show_nat n = (if n < 10 then [''0123456789'' ! n]
     else show_nat (n div 10) @ [''0123456789'' ! (n mod 10)])"

declare show_nat.simps [simp del]

definition show_int :: "int \<Rightarrow> string" where
  "show_int i = (if i < 0 then ''-'' @ show_nat (nat (- i)) else show_nat (nat i))"

definition sample_str :: "int json \<Rightarrow> string" where
  "sample_str v = (case v of
     JNull \<Rightarrow> ''None'' | JBool b \<Rightarrow> (if b then ''True'' else ''False'')
   | JNum n \<Rightarrow> show_int n | JStr s \<Rightarrow> s | JArr xs \<Rightarrow> ''[...]'' | JObj kvs \<Rightarrow> ''{...}'')"

text \<open>
  \<open>eval(expression)\<close> on five texts within the allow-list; the compiler warns about the
  call of a number. The fifth text has 2982 minus signs before a \<open>1\<close>: called from a
  shallow stack, \<open>eval\<close> compiles it and returns 1; called from a few frames deeper, the
  compiler exceeds the recursion limit.
\<close>

definition nested_minus_expression :: string where
  "nested_minus_expression = replicate 2982 (CHR ''-'') @ ''1''"

definition sample_eval :: "nat \<Rightarrow> eval_scope \<Rightarrow> string \<Rightarrow> exn + int json" where
  "sample_eval depth sc src =
     (if src = ''2+2'' then Inr (JNum 4)
      else if src = ''6*7'' then Inr (JNum 42)
      else if src = ''1/0'' then Inl (Exn ZeroDivisionError ''division by zero'')
      else if src = ''1(2)'' then
        Inl (Exn TypeError (quote @ ''int'' @ quote @ '' object is not callable''))
      else if src = nested_minus_expression then
        (if depth \<le> 2 then Inr (JNum 1)
         else Inl (Exn RecursionError ''maximum recursion depth exceeded during compilation''))
      else Inl (Exn SyntaxError ''invalid syntax''))"

definition sample_warnings :: "eval_scope \<Rightarrow> string \<Rightarrow> string list" where
  "sample_warnings sc src =
     (if src = ''1(2)'' then
        [''<string>:1: SyntaxWarning: '' @ quote @ ''int'' @ quote
         @ '' object is not callable; perhaps you missed a comma?'']
      else [])"

text \<open>
  Four expressions that only \<open>eval\<close> with emptied built-ins accepts. The first yields the
  name of the function that called \<open>eval\<close>: a generator finds its own frame in the list it
  was put into, and walks from there through the frame of the lambda and the frame of the
  evaluated code to the frame of the caller. The second and the third find module \<open>os\<close>
  among the subclasses of \<open>object\<close> and set, respectively read, an environment variable.
  The fourth throws \<open>SystemExit\<close> into a generator.
\<close>

definition caller_name_expression :: string where
  "caller_name_expression =
     ''(lambda g: (g.append((g[0].gi_frame.f_back.f_back.f_back.f_code.co_name for _ in [0])), [*g[0]])[1][0])([])''"

definition set_variable_expression :: string where
  "set_variable_expression =
     ''[c for c in ().__class__.__base__.__subclasses__() if c.__name__ == '_wrap_close'][0].__init__.__globals__['environ'].__setitem__('DEMO_FLAG', '1')''"

definition get_variable_expression :: string where
  "get_variable_expression =
     ''[c for c in ().__class__.__base__.__subclasses__() if c.__name__ == '_wrap_close'][0].__init__.__globals__['environ'].get('DEMO_FLAG')''"

definition system_exit_expression :: string where
  "system_exit_expression =
     ''(_ for _ in ()).throw([c for c in [b for b in ().__class__.__base__.__subclasses__() if b.__name__ == 'BaseException'][0].__subclasses__() if c.__name__ == 'SystemExit'][0])''"

definition sample_restricted_eval ::
  "frame \<Rightarrow> string \<Rightarrow> int world \<Rightarrow> int json outcome \<times> int world" where
  "sample_restricted_eval fr src w =
     (if src = ''6*7'' then (Returns (JNum 42), w)
      else if src = ''7 % 4'' then (Returns (JNum 3), w)
      else if src = ''1/0'' then (Raises (Exn ZeroDivisionError ''division by zero''), w)
      else if src = caller_name_expression then (Returns (JStr (frame_function fr)), w)
      else if src = set_variable_expression then
        (Returns JNull, w\<lparr>environ := (environ w)(''DEMO_FLAG'' \<mapsto> ''1'')\<rparr>)
      else if src = get_variable_expression then
        (Returns (case environ w ''DEMO_FLAG'' of None \<Rightarrow> JNull | Some s \<Rightarrow> JStr s), w)
      else if src = system_exit_expression then (Exits (SystemExit []), w)
      else (Raises (Exn SyntaxError ''invalid syntax''), w))"

definition sample_runtime :: "(int, int json) runtime" where
  "sample_runtime = \<lparr>
     num_type_name = (\<lambda>n. ''int''),
     num_truthy = (\<lambda>n. n \<noteq> 0),
     num_str = (\<lambda>n. Inr (show_int n)),
     repr_container = (\<lambda>v. Inr (sample_str v)),
     py_mul = (\<lambda>a v. case v of
         JNum r \<Rightarrow> Inr (JNum (a * r))
       | JBool b \<Rightarrow> Inr (JNum (if b then a else 0))
       | _ \<Rightarrow> Inl (Exn TypeError ''unsupported operand type(s) for *'')),
     format_fixed = (\<lambda>d v. case v of
         JNum n \<Rightarrow> Inr (show_int n @ ''.'' @ replicate d (CHR ''0''))
       | _ \<Rightarrow> Inl (Exn ValueError ''Unknown format code'')),
     stack_depth = 2,
     eval_at = sample_eval,
     eval_warnings = sample_warnings,
     str_value = (\<lambda>v. Inr (sample_str v)),
     restricted_eval = sample_restricted_eval,
     format_value = (\<lambda>v w. (Returns (sample_str v), w)),
     exception_str = (\<lambda>e w. (Returns (exc_text e), w)) \<rparr>"

text \<open>The sample interpreter, called three frames deeper in the stack.\<close>

definition deep_runtime :: "(int, int json) runtime" where
  "deep_runtime = sample_runtime\<lparr>stack_depth := 5\<rparr>"

text \<open>A world with no environment variable set, an empty filesystem, the generator
  drawing \<open>0, 1, 2, \<dots>\<close>, a standard output that takes every line, nothing printed,
  cached or logged yet, and the given remote services.\<close>

definition sample_host :: host where
  "sample_host = \<lparr>system_name = ''Linux'', release = ''6.1.0'', python_version = ''3.11.10'',
     platform_text = ''Linux-6.1.0-x86_64-with-glibc2.36'',
     local_time = ''2025-01-01 12:00:00'', probe_commands = [''uname -p'']\<rparr>"

definition sample_world :: "(string list \<Rightarrow> request \<Rightarrow> int exchange) \<Rightarrow> int world" where
  "sample_world net = \<lparr> environ = Map.empty, files = Map.empty, remote = net,
     rng_seq = (\<lambda>i. i), rng_pos = 0, stdout = [], stdout_fault = (\<lambda>s. None), stderr = [],
     machine = sample_host, platform_cached = False, process_log = [], call_log = [],
     http_log = [], eval_log = [] \<rparr>"

text \<open>Remote services that are down; remote services that answer every request with
  status 200 and the given JSON body; and remote services that answer the GET of every
  request with a redirect to the given URL, and the GET of that URL with status 200 and the
  given body.\<close>

definition network_down :: "string list \<Rightarrow> request \<Rightarrow> int exchange" where
  "network_down history req =
     \<lparr>sent = [url req], answer = Inl (Exn RequestException ''Connection refused'')\<rparr>"

definition replies :: "int json \<Rightarrow> string list \<Rightarrow> request \<Rightarrow> int exchange" where
  "replies body history req =
     \<lparr>sent = [url req], answer = Inr \<lparr>status_error = None, json_body = Inr body\<rparr>\<rparr>"

definition redirects :: "string \<Rightarrow> int json \<Rightarrow> string list \<Rightarrow> request \<Rightarrow> int exchange" where
  "redirects target body history req =
     \<lparr>sent = [url req, target],
      answer = Inr \<lparr>status_error = None, json_body = Inr body\<rparr>\<rparr>"

text \<open>The sample world with the weather key set and the remote services down.\<close>

definition keyed_world_down :: "int world" where
  "keyed_world_down = (sample_world network_down)\<lparr>environ := [''WEATHERSTACK_API_KEY'' \<mapsto> ''k'']\<rparr>"

text \<open>The exchange-rate service quoting 2 for EUR.\<close>

definition rates_world :: "int world" where
  "rates_world = sample_world (replies (JObj [(''rates'', JObj [(''EUR'', JNum 2)])]))"

text \<open>The remote services down and standard output closed: every \<open>print\<close> raises.\<close>

definition closed_stdout_world :: "int world" where
  "closed_stdout_world = (sample_world network_down)\<lparr>stdout_fault :=
     (\<lambda>s. Some (Exn ValueError ''I/O operation on closed file.''))\<rparr>"

section \<open>Basic facts\<close>

lemma and_then_Inl [simp]: "and_then (Inl e) f = Inl e"
  by (simp add: and_then_def)

lemma and_then_Inr [simp]: "and_then (Inr x) f = f x"
  by (simp add: and_then_def)

lemma except_Exception_returns: "\<exists>x. except_Exception body handler = Inr x"
  by (cases body) (simp_all add: except_Exception_def)

lemma except_handlers_pass [simp]:
  "except_Exception (Inr x) h = Inr x"
  "except_RequestException (Inr x) h = Inr x"
  by (simp_all add: except_Exception_def except_RequestException_def)

lemma except_RequestException_caught:
  "body = Inl e \<Longrightarrow> exc_cls e = RequestException \<Longrightarrow>
   except_RequestException body handler = Inr (handler e)"
  by (simp add: except_RequestException_def)

lemma str_field_simps [simp]:
  "str_field rt (Inl e) = Inl e"
  "str_field rt (Inr v) = str_json rt v"
  by (simp_all add: str_field_def)

lemma str_json_JStr [simp]: "str_json rt (JStr s) = Inr s"
  by (simp add: str_json_def)

lemma str_json_JNum [simp]: "str_json rt (JNum n) = num_str rt n"
  by (simp add: str_json_def)

lemma then_do_simps [simp]:
  "then_do (Returns x, w) f = f x w"
  "then_do (Raises e, w) f = (Raises e, w)"
  "then_do (Exits b, w) f = (Exits b, w)"
  by (simp_all add: then_do_def)

lemma catch_Exception_simps [simp]:
  "catch_Exception (Returns x, w) h = (Returns x, w)"
  "catch_Exception (Raises e, w) h = h e w"
  "catch_Exception (Exits b, w) h = (Exits b, w)"
  by (simp_all add: catch_Exception_def)

subsection \<open>The world after a call of \<open>requests.get\<close>\<close>

lemma after_get_fields [simp]:
  "environ (after_get req w) = environ w"
  "files (after_get req w) = files w"
  "remote (after_get req w) = remote w"
  "rng_seq (after_get req w) = rng_seq w"
  "rng_pos (after_get req w) = rng_pos w"
  "stdout (after_get req w) = stdout w"
  "stdout_fault (after_get req w) = stdout_fault w"
  "stderr (after_get req w) = stderr w"
  "machine (after_get req w) = machine w"
  "platform_cached (after_get req w) = platform_cached w"
  "process_log (after_get req w) = process_log w"
  "eval_log (after_get req w) = eval_log w"
  "call_log (after_get req w) = call_log w @ [req]"
  "http_log (after_get req w) = http_log w @ sent (remote w (http_log w) req)"
  by (simp_all add: after_get_def)

lemma at_most_one_call_one:
  "call_log w' = call_log w @ [req] \<Longrightarrow>
   http_log w' = http_log w @ sent (remote w (http_log w) req) \<Longrightarrow> at_most_one_call w w'"
  by (simp add: at_most_one_call_def)

lemma at_most_one_call_cases:
  assumes "at_most_one_call w w'"
  shows "(call_log w' = call_log w \<and> http_log w' = http_log w)
         \<or> (\<exists>req. call_log w' = call_log w @ [req]
               \<and> http_log w' = http_log w @ sent (remote w (http_log w) req))"
  using assms by (auto simp: at_most_one_call_def split: list.splits)

subsection \<open>What each tool leaves behind\<close>

lemma demo_tools_convert_currency_world:
  "snd (demo_tools_convert_currency rt amount from_currency to_currency w) =
     after_get (demo_tools_convert_currency_request from_currency) w"
  by (simp add: demo_tools_convert_currency_def requests_get_def)

lemma demo_tools_get_weather_world:
  "snd (demo_tools_get_weather rt location celsius w) =
     (case environ w ''WEATHERSTACK_API_KEY'' of
        None \<Rightarrow> w
      | Some k \<Rightarrow> if k = [] then w
          else after_get (demo_tools_get_weather_request k location celsius) w)"
  by (simp add: demo_tools_get_weather_def requests_get_def os_getenv_def split: option.split)

lemma demo_tools_get_joke_world:
  "snd (demo_tools_get_joke rt w) =
     (case demo_tools_get_joke_try rt (reply w demo_tools_get_joke_request) of
        Inr s \<Rightarrow> after_get demo_tools_get_joke_request w
      | Inl e \<Rightarrow> (after_get demo_tools_get_joke_request w)\<lparr>rng_pos := rng_pos w + 1\<rparr>)"
  by (simp add: demo_tools_get_joke_def requests_get_def random_choice_def split: sum.split)

lemma demo_tools_get_random_fact_world:
  "snd (demo_tools_get_random_fact rt w) =
     (case demo_tools_get_random_fact_try rt (reply w demo_tools_get_random_fact_request) of
        Inr (Some s) \<Rightarrow> after_get demo_tools_get_random_fact_request w
      | Inr None \<Rightarrow> (after_get demo_tools_get_random_fact_request w)\<lparr>rng_pos := rng_pos w + 1\<rparr>
      | Inl e \<Rightarrow>
          (case stdout_fault w (''Primary fact API failed: '' @ exc_text e) of
             None \<Rightarrow> (after_get demo_tools_get_random_fact_request w)
                        \<lparr>stdout := stdout w @ [''Primary fact API failed: '' @ exc_text e],
                         rng_pos := rng_pos w + 1\<rparr>
           | Some e' \<Rightarrow> after_get demo_tools_get_random_fact_request w))"
  by (simp add: demo_tools_get_random_fact_def demo_tools_get_random_fact_fallback_def
      requests_get_def random_choice_def print_line_def split: sum.split option.split)

lemma demo_tools_search_wikipedia_world:
  "snd (demo_tools_search_wikipedia rt query w) =
     after_get (demo_tools_search_wikipedia_request query) w"
  by (simp add: demo_tools_search_wikipedia_def requests_get_def)

lemma local_multiple_tools_get_weather_world:
  "snd (local_multiple_tools_get_weather rt location celsius w) =
     (case environ w ''WEATHERSTACK_API_KEY'' of
        None \<Rightarrow> w
      | Some k \<Rightarrow> if k = [] then w
          else after_get (local_multiple_tools_get_weather_request k location celsius) w)"
  by (simp add: local_multiple_tools_get_weather_def requests_get_def os_getenv_def
      split: option.split)

lemma local_multiple_tools_convert_currency_world:
  "snd (local_multiple_tools_convert_currency rt amount from_currency to_currency w) =
     after_get (local_multiple_tools_convert_currency_request
        (environ w ''EXCHANGE_API_KEY'') from_currency to_currency) w"
  by (simp add: local_multiple_tools_convert_currency_def requests_get_def os_getenv_def Let_def)

lemma local_multiple_tools_get_joke_world:
  "snd (local_multiple_tools_get_joke rt w) = after_get local_multiple_tools_get_joke_request w"
  by (simp add: local_multiple_tools_get_joke_def requests_get_def)

lemma local_multiple_tools_get_random_fact_world:
  "snd (local_multiple_tools_get_random_fact rt w) =
     after_get (local_multiple_tools_get_random_fact_request (environ w ''API_NINJAS_KEY'')) w"
  by (simp add: local_multiple_tools_get_random_fact_def requests_get_def os_getenv_def Let_def)

lemma local_multiple_tools_search_wikipedia_world:
  "snd (local_multiple_tools_search_wikipedia rt query w) =
     after_get (local_multiple_tools_search_wikipedia_request query) w"
  by (simp add: local_multiple_tools_search_wikipedia_def requests_get_def)

lemma simple_demo_get_system_info_world:
  "snd (simple_demo_get_system_info w) =
     (if platform_cached w then w
      else w\<lparr>platform_cached := True,
             process_log := process_log w @ probe_commands (machine w)\<rparr>)"
  by (simp add: simple_demo_get_system_info_def platform_describe_def)

lemma quick_start_add_numbers_world: "snd (quick_start_add_numbers a b w) = w"
  by (simp add: quick_start_add_numbers_def)

subsection \<open>The character check\<close>

lemma starts_with_set: "starts_with t s \<Longrightarrow> set t \<subseteq> set s"
  by (induction t s rule: starts_with.induct) auto

lemma is_substr_set: "is_substr t s \<Longrightarrow> set t \<subseteq> set s"
proof (induction t s rule: is_substr.induct)
  case (1 t)
  then show ?case by simp
next
  case (2 t c cs)
  from "2.prems" consider "starts_with t (c # cs)" | "is_substr t cs" by auto
  then show ?case
  proof cases
    case 1
    then show ?thesis by (rule starts_with_set)
  next
    case 2
    with "2.IH" show ?thesis by auto
  qed
qed

lemma lower_char_allowed: "c \<in> allowed_chars \<Longrightarrow> lower_char c = c"
  by (auto simp: allowed_chars_def lower_char_def)

lemma py_lower_allowed: "all_allowed e \<Longrightarrow> py_lower e = e"
  by (induction e) (auto simp: all_allowed_def py_lower_def lower_char_allowed)

lemma dangerous_terms_all:
  "list_all (\<lambda>t. \<exists>c \<in> set t. c \<notin> allowed_chars) dangerous_terms"
  by (simp add: dangerous_terms_def allowed_chars_def)

lemma dangerous_term_not_allowed:
  "t \<in> set dangerous_terms \<Longrightarrow> \<exists>c \<in> set t. c \<notin> allowed_chars"
  using dangerous_terms_all unfolding list_all_iff by blast

lemma allowed_no_dangerous_term: "all_allowed e \<Longrightarrow> \<not> has_dangerous_term e"
proof
  assume a: "all_allowed e" and d: "has_dangerous_term e"
  from d obtain t where t: "t \<in> set dangerous_terms" and sub: "is_substr t (py_lower e)"
    by (auto simp: has_dangerous_term_def list_ex_iff)
  from sub a have "set t \<subseteq> set e" by (simp add: py_lower_allowed is_substr_set)
  moreover from a have "set e \<subseteq> allowed_chars" by (auto simp: all_allowed_def list_all_iff)
  ultimately show False using dangerous_term_not_allowed[OF t] by blast
qed

lemma after_eval_fields [simp]:
  "environ (after_eval rt sc src w) = environ w"
  "files (after_eval rt sc src w) = files w"
  "remote (after_eval rt sc src w) = remote w"
  "rng_seq (after_eval rt sc src w) = rng_seq w"
  "rng_pos (after_eval rt sc src w) = rng_pos w"
  "stdout (after_eval rt sc src w) = stdout w"
  "stdout_fault (after_eval rt sc src w) = stdout_fault w"
  "stderr (after_eval rt sc src w) = stderr w @ eval_warnings rt sc src"
  "machine (after_eval rt sc src w) = machine w"
  "platform_cached (after_eval rt sc src w) = platform_cached w"
  "process_log (after_eval rt sc src w) = process_log w"
  "eval_log (after_eval rt sc src w) = eval_log w @ [(sc, src)]"
  "call_log (after_eval rt sc src w) = call_log w"
  "http_log (after_eval rt sc src w) = http_log w"
  by (simp_all add: after_eval_def)

lemma demo_tools_calculate_rejected:
  "\<not> all_allowed expression \<Longrightarrow>
   demo_tools_calculate rt expression w = (Inr (cross_mark @ '' '' @ invalid_characters_message), w)"
  by (simp add: demo_tools_calculate_def)

lemma demo_tools_calculate_accepted:
  "all_allowed expression \<Longrightarrow>
   demo_tools_calculate rt expression w =
     (case and_then (builtin_eval rt (ModuleScope ''demo_tools'') expression) (str_value rt) of
        Inr result \<Rightarrow> Inr (abacus @ '' '' @ expression @ '' = '' @ result)
      | Inl e \<Rightarrow> Inr (cross_mark @ '' Error calculating '' @ quote @ expression @ quote
                    @ '': '' @ exc_text e),
      after_eval rt (ModuleScope ''demo_tools'') expression w)"
  by (simp add: demo_tools_calculate_def allowed_no_dangerous_term py_eval_def split: sum.split)

lemma local_multiple_tools_calculate_rejected:
  "\<not> all_allowed expression \<Longrightarrow>
   local_multiple_tools_calculate rt expression w
     = (Inr (''Error: '' @ invalid_characters_message), w)"
  by (simp add: local_multiple_tools_calculate_def)

lemma local_multiple_tools_calculate_accepted:
  "all_allowed expression \<Longrightarrow>
   local_multiple_tools_calculate rt expression w =
     (case and_then (builtin_eval rt (ModuleScope ''local_multiple_tools'') expression)
             (str_value rt) of
        Inr result \<Rightarrow> Inr (expression @ '' = '' @ result)
      | Inl e \<Rightarrow> Inr (''Error calculating '' @ quote @ expression @ quote
                    @ '': '' @ exc_text e),
      after_eval rt (ModuleScope ''local_multiple_tools'') expression w)"
  by (simp add: local_multiple_tools_calculate_def py_eval_def split: sum.split)

lemma demo_tools_calculate_world:
  "snd (demo_tools_calculate rt expression w) =
     (if all_allowed expression then after_eval rt (ModuleScope ''demo_tools'') expression w
      else w)"
  by (simp add: demo_tools_calculate_rejected demo_tools_calculate_accepted)

lemma local_multiple_tools_calculate_world:
  "snd (local_multiple_tools_calculate rt expression w) =
     (if all_allowed expression
      then after_eval rt (ModuleScope ''local_multiple_tools'') expression w else w)"
  by (simp add: local_multiple_tools_calculate_rejected local_multiple_tools_calculate_accepted)

subsection \<open>What each tool returns\<close>

lemma demo_tools_convert_currency_result:
  "fst (demo_tools_convert_currency rt amount from_currency to_currency w) =
     except_Exception
       (demo_tools_convert_currency_try rt amount from_currency to_currency
          (reply w (demo_tools_convert_currency_request from_currency)))
       (\<lambda>e. cross_mark @ '' Error fetching exchange rate: '' @ exc_text e)"
  by (simp add: demo_tools_convert_currency_def requests_get_def)

lemma demo_tools_get_weather_result:
  "fst (demo_tools_get_weather rt location celsius w) =
     (case environ w ''WEATHERSTACK_API_KEY'' of
        None \<Rightarrow> Inr (cross_mark @ '' Weather API key not configured. ''
                      @ ''Please add WEATHERSTACK_API_KEY to your .env file.'')
      | Some k \<Rightarrow>
          if k = [] then Inr (cross_mark @ '' Weather API key not configured. ''
                      @ ''Please add WEATHERSTACK_API_KEY to your .env file.'')
          else except_Exception
                 (demo_tools_get_weather_try rt celsius
                    (reply w (demo_tools_get_weather_request k location celsius)))
                 (\<lambda>e. cross_mark @ '' Error fetching weather: '' @ exc_text e))"
  by (simp add: demo_tools_get_weather_def requests_get_def os_getenv_def split: option.split)

lemma demo_tools_get_joke_result:
  "fst (demo_tools_get_joke rt w) =
     (case demo_tools_get_joke_try rt (reply w demo_tools_get_joke_request) of
        Inr s \<Rightarrow> Inr s
      | Inl e \<Rightarrow> Inr (smile @ '' ''
                    @ fallback_jokes ! (rng_seq w (rng_pos w) mod length fallback_jokes)))"
  by (simp add: demo_tools_get_joke_def requests_get_def random_choice_def split: sum.split)

lemma demo_tools_get_random_fact_result:
  "fst (demo_tools_get_random_fact rt w) =
     (case demo_tools_get_random_fact_try rt (reply w demo_tools_get_random_fact_request) of
        Inr (Some s) \<Rightarrow> Inr s
      | Inr None \<Rightarrow> Inr (brain @ '' Random Fact: ''
                @ fallback_facts ! (rng_seq w (rng_pos w) mod length fallback_facts))
      | Inl e \<Rightarrow>
          (case stdout_fault w (''Primary fact API failed: '' @ exc_text e) of
             None \<Rightarrow> Inr (brain @ '' Random Fact: ''
                @ fallback_facts ! (rng_seq w (rng_pos w) mod length fallback_facts))
           | Some e' \<Rightarrow> Inl e'))"
  by (simp add: demo_tools_get_random_fact_def demo_tools_get_random_fact_fallback_def
      requests_get_def random_choice_def print_line_def split: sum.split option.split)

lemma demo_tools_search_wikipedia_result:
  "fst (demo_tools_search_wikipedia rt query w) =
     except_Exception
       (demo_tools_search_wikipedia_try rt query
          (reply w (demo_tools_search_wikipedia_request query)))
       (\<lambda>e. cross_mark @ '' Error searching Wikipedia: '' @ exc_text e)"
  by (simp add: demo_tools_search_wikipedia_def requests_get_def)

lemma demo_tools_calculate_result:
  "fst (demo_tools_calculate rt expression w) =
     (if \<not> all_allowed expression then Inr (cross_mark @ '' '' @ invalid_characters_message)
      else case and_then (builtin_eval rt (ModuleScope ''demo_tools'') expression)
                  (str_value rt) of
        Inr result \<Rightarrow> Inr (abacus @ '' '' @ expression @ '' = '' @ result)
      | Inl e \<Rightarrow> Inr (cross_mark @ '' Error calculating '' @ quote @ expression @ quote
                    @ '': '' @ exc_text e))"
  by (simp add: demo_tools_calculate_rejected demo_tools_calculate_accepted)

lemma local_multiple_tools_get_weather_result:
  "fst (local_multiple_tools_get_weather rt location celsius w) =
     (case environ w ''WEATHERSTACK_API_KEY'' of
        None \<Rightarrow> Inr (''Weather API key not configured. ''
                      @ ''Please add WEATHERSTACK_API_KEY to your .env file.'')
      | Some k \<Rightarrow>
          if k = [] then Inr (''Weather API key not configured. ''
                      @ ''Please add WEATHERSTACK_API_KEY to your .env file.'')
          else except_RequestException
                 (local_multiple_tools_get_weather_try rt celsius
                    (reply w (local_multiple_tools_get_weather_request k location celsius)))
                 (\<lambda>e. ''Error fetching weather data: '' @ exc_text e))"
  by (simp add: local_multiple_tools_get_weather_def requests_get_def os_getenv_def
      split: option.split)

lemma local_multiple_tools_convert_currency_result:
  "fst (local_multiple_tools_convert_currency rt amount from_currency to_currency w) =
     except_RequestException
       (local_multiple_tools_convert_currency_try rt (environ w ''EXCHANGE_API_KEY'') amount
          from_currency to_currency
          (reply w (local_multiple_tools_convert_currency_request
             (environ w ''EXCHANGE_API_KEY'') from_currency to_currency)))
       (\<lambda>e. ''Error fetching exchange rate: '' @ exc_text e)"
  by (simp add: local_multiple_tools_convert_currency_def requests_get_def os_getenv_def Let_def)

lemma local_multiple_tools_get_joke_result:
  "fst (local_multiple_tools_get_joke rt w) =
     except_RequestException
       (local_multiple_tools_get_joke_try rt (reply w local_multiple_tools_get_joke_request))
       (\<lambda>e. JStr (''Error fetching joke: '' @ exc_text e))"
  by (simp add: local_multiple_tools_get_joke_def requests_get_def)

lemma local_multiple_tools_get_random_fact_result:
  "fst (local_multiple_tools_get_random_fact rt w) =
     except_RequestException
       (local_multiple_tools_get_random_fact_try rt
          (reply w (local_multiple_tools_get_random_fact_request
             (environ w ''API_NINJAS_KEY''))))
       (\<lambda>e. JStr (''Error fetching random fact: '' @ exc_text e))"
  by (simp add: local_multiple_tools_get_random_fact_def requests_get_def os_getenv_def Let_def)

lemma local_multiple_tools_search_wikipedia_result:
  "fst (local_multiple_tools_search_wikipedia rt query w) =
     except_RequestException
       (local_multiple_tools_search_wikipedia_try rt query
          (reply w (local_multiple_tools_search_wikipedia_request query)))
       (\<lambda>e. ''Error searching Wikipedia: '' @ exc_text e)"
  by (simp add: local_multiple_tools_search_wikipedia_def requests_get_def)

lemma local_multiple_tools_calculate_result:
  "fst (local_multiple_tools_calculate rt expression w) =
     (if \<not> all_allowed expression then Inr (''Error: '' @ invalid_characters_message)
      else case and_then (builtin_eval rt (ModuleScope ''local_multiple_tools'') expression)
                  (str_value rt) of
        Inr result \<Rightarrow> Inr (expression @ '' = '' @ result)
      | Inl e \<Rightarrow> Inr (''Error calculating '' @ quote @ expression @ quote
                    @ '': '' @ exc_text e))"
  by (simp add: local_multiple_tools_calculate_rejected local_multiple_tools_calculate_accepted)

lemma simple_demo_get_system_info_result:
  "fst (simple_demo_get_system_info w) =
     Inr (''System Information:'' @ newline
           @ ''- OS: '' @ system_name (machine w) @ '' '' @ release (machine w) @ newline
           @ ''- Python: '' @ python_version (machine w) @ newline
           @ ''- Current Time: '' @ local_time (machine w) @ newline
           @ ''- Platform: '' @ platform_text (machine w))"
  by (simp add: simple_demo_get_system_info_def platform_describe_def)

lemma quick_start_add_numbers_result: "fst (quick_start_add_numbers a b w) = Inr (a + b)"
  by (simp add: quick_start_add_numbers_def)

text \<open>When the request fails, each \<open>try\<close> block ends with the exception of the request.\<close>

lemma try_blocks_fail_with_request:
  assumes "response_data r = Inl e"
  shows "demo_tools_convert_currency_try rt amount from_currency to_currency r = Inl e"
    and "demo_tools_get_weather_try rt celsius r = Inl e"
    and "demo_tools_get_joke_try rt r = Inl e"
    and "demo_tools_get_random_fact_try rt r = Inl e"
    and "demo_tools_search_wikipedia_try rt query r = Inl e"
    and "local_multiple_tools_get_weather_try rt celsius' r = Inl e"
    and "local_multiple_tools_convert_currency_try rt api_key amount from_currency to_currency r
           = Inl e"
    and "local_multiple_tools_get_joke_try rt r = Inl e"
    and "local_multiple_tools_get_random_fact_try rt r = Inl e"
    and "local_multiple_tools_search_wikipedia_try rt query r = Inl e"
  using assms
  by (simp_all add: demo_tools_convert_currency_try_def demo_tools_get_weather_try_def
      demo_tools_get_joke_try_def demo_tools_get_random_fact_try_def
      demo_tools_search_wikipedia_try_def local_multiple_tools_get_weather_try_def
      local_multiple_tools_convert_currency_try_def local_multiple_tools_get_joke_try_def
      local_multiple_tools_get_random_fact_try_def local_multiple_tools_search_wikipedia_try_def)

subsection \<open>The fallback tables and the sample worlds\<close>

lemma fallback_jokes_length: "length fallback_jokes = 3"
  by (simp add: fallback_jokes_def)

lemma fallback_facts_length: "length fallback_facts = 5"
  by (simp add: fallback_facts_def)

lemma fallback_joke_member:
  "fallback_jokes ! (k mod length fallback_jokes) \<in> set fallback_jokes"
  by (simp add: fallback_jokes_length)

lemma fallback_fact_member:
  "fallback_facts ! (k mod length fallback_facts) \<in> set fallback_facts"
  by (simp add: fallback_facts_length)

lemma sample_world_fields:
  "environ (sample_world net) = Map.empty"
  "files (sample_world net) = Map.empty"
  "remote (sample_world net) = net"
  "rng_seq (sample_world net) = (\<lambda>i. i)"
  "rng_pos (sample_world net) = 0"
  "stdout (sample_world net) = []"
  "stdout_fault (sample_world net) = (\<lambda>s. None)"
  "stderr (sample_world net) = []"
  "machine (sample_world net) = sample_host"
  "platform_cached (sample_world net) = False"
  "process_log (sample_world net) = []"
  "call_log (sample_world net) = []"
  "http_log (sample_world net) = []"
  "eval_log (sample_world net) = []"
  by (simp_all add: sample_world_def)

lemma reply_network_down:
  "remote w = network_down \<Longrightarrow> reply w req = Inl (Exn RequestException ''Connection refused'')"
  by (simp add: reply_def network_down_def)

lemma reply_replies:
  "remote w = replies body \<Longrightarrow> reply w req = Inr \<lparr>status_error = None, json_body = Inr body\<rparr>"
  by (simp add: reply_def replies_def)

lemma response_data_network_down:
  "response_data (reply (sample_world network_down) req)
     = Inl (Exn RequestException ''Connection refused'')"
  by (simp add: reply_network_down sample_world_fields response_data_def)

lemma response_data_replies:
  "response_data (reply (sample_world (replies body)) req) = Inr body"
  by (simp add: reply_replies sample_world_fields response_data_def)

lemma keyed_world_down_facts:
  "environ keyed_world_down ''WEATHERSTACK_API_KEY'' = Some ''k''"
  "response_data (reply keyed_world_down req) = Inl (Exn RequestException ''Connection refused'')"
  by (simp_all add: keyed_world_down_def sample_world_def reply_def network_down_def
      response_data_def)

lemma try_blocks_network_down:
  "remote w = network_down \<Longrightarrow>
   demo_tools_get_joke_try rt (reply w req) = Inl (Exn RequestException ''Connection refused'')"
  "remote w = network_down \<Longrightarrow>
   demo_tools_get_random_fact_try rt (reply w req)
     = Inl (Exn RequestException ''Connection refused'')"
  by (rule try_blocks_fail_with_request, simp add: reply_network_down response_data_def)+

subsection \<open>Calls in sequence\<close>

lemma as_value_simps [simp]:
  "fst (as_value p) = (case fst p of Inl e \<Rightarrow> Inl e | Inr s \<Rightarrow> Inr (Value (JStr s)))"
  "snd (as_value p) = snd p"
  "fst (as_json q) = (case fst q of Inl e \<Rightarrow> Inl e | Inr v \<Rightarrow> Inr (Value v))"
  "snd (as_json q) = snd q"
  "fst (as_integer r) = (case fst r of Inl e \<Rightarrow> Inl e | Inr i \<Rightarrow> Inr (Integer i))"
  "snd (as_integer r) = snd r"
  by (simp_all add: as_value_def as_json_def as_integer_def)

lemmas tool_worlds =
  demo_tools_convert_currency_world demo_tools_get_weather_world demo_tools_get_joke_world
  demo_tools_get_random_fact_world demo_tools_search_wikipedia_world demo_tools_calculate_world
  local_multiple_tools_get_weather_world local_multiple_tools_convert_currency_world
  local_multiple_tools_get_joke_world local_multiple_tools_get_random_fact_world
  local_multiple_tools_search_wikipedia_world local_multiple_tools_calculate_world
  simple_demo_get_system_info_world quick_start_add_numbers_world

lemmas tool_results =
  demo_tools_convert_currency_result demo_tools_get_weather_result demo_tools_get_joke_result
  demo_tools_get_random_fact_result demo_tools_search_wikipedia_result demo_tools_calculate_result
  local_multiple_tools_get_weather_result local_multiple_tools_convert_currency_result
  local_multiple_tools_get_joke_result local_multiple_tools_get_random_fact_result
  local_multiple_tools_search_wikipedia_result local_multiple_tools_calculate_result
  simple_demo_get_system_info_result quick_start_add_numbers_result

lemma invoke_environ: "environ (snd (invoke rt c w)) = environ w"
  by (cases c) (simp_all add: tool_worlds split: option.split sum.split)

lemma invoke_files: "files (snd (invoke rt c w)) = files w"
  by (cases c) (simp_all add: tool_worlds split: option.split sum.split)

lemma invoke_remote: "remote (snd (invoke rt c w)) = remote w"
  by (cases c) (simp_all add: tool_worlds split: option.split sum.split)

lemma invoke_rng_seq: "rng_seq (snd (invoke rt c w)) = rng_seq w"
  by (cases c) (simp_all add: tool_worlds split: option.split sum.split)

lemma invoke_rng_pos:
  "rng_pos (snd (invoke rt c w)) = rng_pos w
   \<or> (uses_generator c \<and> rng_pos (snd (invoke rt c w)) = rng_pos w + 1)"
  by (cases c) (simp_all add: tool_worlds uses_generator_def split: option.split sum.split)

lemma invoke_rng_pos_same:
  "\<not> uses_generator c \<Longrightarrow> rng_pos (snd (invoke rt c w)) = rng_pos w"
  using invoke_rng_pos[of rt c w] by blast

lemma invoke_stdout: "\<not> prints c \<Longrightarrow> stdout (snd (invoke rt c w)) = stdout w"
  by (cases c) (simp_all add: tool_worlds prints_def split: option.split sum.split)

lemma invoke_stderr:
  "stderr (snd (invoke rt c w)) =
     (case c of
        DemoCalculate e \<Rightarrow>
          if all_allowed e then stderr w @ eval_warnings rt (ModuleScope ''demo_tools'') e
          else stderr w
      | LocalCalculate e \<Rightarrow>
          if all_allowed e
          then stderr w @ eval_warnings rt (ModuleScope ''local_multiple_tools'') e
          else stderr w
      | _ \<Rightarrow> stderr w)"
  by (cases c) (simp_all add: tool_worlds split: option.split sum.split)

lemma invoke_process_log:
  "\<not> reads_host c \<Longrightarrow> process_log (snd (invoke rt c w)) = process_log w"
  by (cases c) (simp_all add: tool_worlds reads_host_def split: option.split sum.split)

lemma invoke_platform_cached:
  "\<not> reads_host c \<Longrightarrow> platform_cached (snd (invoke rt c w)) = platform_cached w"
  by (cases c) (simp_all add: tool_worlds reads_host_def split: option.split sum.split)

lemma invoke_at_most_one_call: "at_most_one_call w (snd (invoke rt c w))"
  by (cases c) (simp_all add: tool_worlds at_most_one_call_def split: option.split sum.split)

lemma invoke_deterministic:
  assumes "same_reads c w1 w2"
  shows "fst (invoke rt c w1) = fst (invoke rt c w2)"
proof -
  from assms have e: "environ w2 = environ w1" and r: "reply w2 = reply w1"
    by (simp_all add: same_reads_def)
  show ?thesis
  proof (cases c)
    case DemoGetJoke
    with assms have "rng_seq w1 (rng_pos w1) = rng_seq w2 (rng_pos w2)"
      by (simp add: same_reads_def uses_generator_def next_draw_def)
    with DemoGetJoke r show ?thesis
      by (simp add: demo_tools_get_joke_result split: sum.split)
  next
    case DemoGetRandomFact
    with assms have "rng_seq w1 (rng_pos w1) = rng_seq w2 (rng_pos w2)"
      and "stdout_fault w2 = stdout_fault w1"
      by (simp_all add: same_reads_def uses_generator_def prints_def next_draw_def)
    with DemoGetRandomFact r show ?thesis
      by (simp add: demo_tools_get_random_fact_result split: sum.split option.split)
  next
    case GetSystemInfo
    with assms have "machine w2 = machine w1"
      by (simp add: same_reads_def reads_host_def)
    with GetSystemInfo show ?thesis
      by (simp add: simple_demo_get_system_info_result)
  qed (simp_all add: tool_results e r split: option.split)
qed

subsection \<open>Currency conversion and the facts service\<close>

lemma has_rate_iff:
  "has_rate data to_currency r \<longleftrightarrow>
     (\<exists>kvs rates. data = JObj kvs \<and> map_of kvs ''rates'' = Some (JObj rates)
        \<and> map_of rates to_currency = Some (JNum r))"
proof (cases data)
  case (JObj kvs)
  show ?thesis
  proof (cases "map_of kvs ''rates''")
    case None
    with JObj show ?thesis by (simp add: has_rate_def)
  next
    case (Some x)
    with JObj show ?thesis by (cases x) (simp_all add: has_rate_def)
  qed
qed (simp_all add: has_rate_def)

lemma lacks_rate_iff:
  "lacks_rate data to_currency \<longleftrightarrow>
     (\<exists>kvs. data = JObj kvs \<and> (map_of kvs ''rates'' = None
        \<or> (\<exists>rates. map_of kvs ''rates'' = Some (JObj rates)
              \<and> map_of rates to_currency = None)))"
proof (cases data)
  case (JObj kvs)
  show ?thesis
  proof (cases "map_of kvs ''rates''")
    case None
    with JObj show ?thesis by (simp add: lacks_rate_def)
  next
    case (Some x)
    with JObj show ?thesis by (cases x) (simp_all add: lacks_rate_def)
  qed
qed (simp_all add: lacks_rate_def)

lemma has_rateD:
  assumes "has_rate data to_currency r"
  obtains kvs rates where "data = JObj kvs" "map_of kvs ''rates'' = Some (JObj rates)"
    "map_of rates to_currency = Some (JNum r)"
  using assms unfolding has_rate_iff by blast

lemma lacks_rateD:
  assumes "lacks_rate data to_currency"
  obtains kvs where "data = JObj kvs" "map_of kvs ''rates'' = None"
  | kvs rates where "data = JObj kvs" "map_of kvs ''rates'' = Some (JObj rates)"
    "map_of rates to_currency = None"
  using assms unfolding lacks_rate_iff by blast

lemma demo_tools_convert_currency_try_rate:
  assumes "response_data r = Inr data" "has_rate data to_currency rate"
    "py_mul rt amount (JNum rate) = Inr converted"
    "num_str rt amount = Inr amount_text"
    "format_fixed rt 2 converted = Inr converted_text"
    "format_fixed rt 4 (JNum rate) = Inr rate_text"
  shows "demo_tools_convert_currency_try rt amount from_currency to_currency r =
     Inr (money_bag @ '' '' @ amount_text @ '' '' @ from_currency @ '' = ''
          @ converted_text @ '' '' @ to_currency @ '' (Rate: '' @ rate_text @ '')'')"
  using assms(2)
proof (rule has_rateD)
  fix kvs rates
  assume "data = JObj kvs" "map_of kvs ''rates'' = Some (JObj rates)"
    "map_of rates to_currency = Some (JNum rate)"
  with assms(1,3,4,5,6) show ?thesis
    by (simp add: demo_tools_convert_currency_try_def py_in_def py_getitem_def)
qed

lemma demo_tools_convert_currency_try_no_rate:
  assumes "response_data r = Inr data" "lacks_rate data to_currency"
  shows "demo_tools_convert_currency_try rt amount from_currency to_currency r =
     Inr (cross_mark @ '' Could not find exchange rate for '' @ from_currency
          @ '' to '' @ to_currency)"
  using assms(2)
proof (rule lacks_rateD)
  fix kvs
  assume "data = JObj kvs" "map_of kvs ''rates'' = None"
  with assms(1) show ?thesis
    by (simp add: demo_tools_convert_currency_try_def py_in_def py_getitem_def)
next
  fix kvs rates
  assume "data = JObj kvs" "map_of kvs ''rates'' = Some (JObj rates)"
    "map_of rates to_currency = None"
  with assms(1) show ?thesis
    by (simp add: demo_tools_convert_currency_try_def py_in_def py_getitem_def)
qed

lemma local_multiple_tools_convert_currency_try_rate:
  assumes "\<not> has_key api_key" "response_data r = Inr data" "has_rate data to_currency rate"
    "py_mul rt amount (JNum rate) = Inr converted"
    "num_str rt amount = Inr amount_text"
    "format_fixed rt 2 converted = Inr converted_text"
    "num_str rt rate = Inr rate_text"
  shows "local_multiple_tools_convert_currency_try rt api_key amount from_currency to_currency r =
     Inr (amount_text @ '' '' @ from_currency @ '' = '' @ converted_text @ '' ''
          @ to_currency @ '' (Rate: '' @ rate_text @ '')'')"
  using assms(3)
proof (rule has_rateD)
  fix kvs rates
  assume "data = JObj kvs" "map_of kvs ''rates'' = Some (JObj rates)"
    "map_of rates to_currency = Some (JNum rate)"
  with assms(1,2,4,5,6,7) show ?thesis
    by (simp add: local_multiple_tools_convert_currency_try_def py_in_def py_getitem_def)
qed

lemma local_multiple_tools_convert_currency_try_no_rate:
  assumes "\<not> has_key api_key" "response_data r = Inr data" "lacks_rate data to_currency"
  shows "local_multiple_tools_convert_currency_try rt api_key amount from_currency to_currency r =
     Inr (''Error: Could not find exchange rate for '' @ from_currency
          @ '' to '' @ to_currency)"
  using assms(3)
proof (rule lacks_rateD)
  fix kvs
  assume "data = JObj kvs" "map_of kvs ''rates'' = None"
  with assms(1,2) show ?thesis
    by (simp add: local_multiple_tools_convert_currency_try_def py_in_def py_getitem_def)
next
  fix kvs rates
  assume "data = JObj kvs" "map_of kvs ''rates'' = Some (JObj rates)"
    "map_of rates to_currency = None"
  with assms(1,2) show ?thesis
    by (simp add: local_multiple_tools_convert_currency_try_def py_in_def py_getitem_def)
qed

lemma demo_tools_get_random_fact_try_without_text:
  assumes "response_data r = Inr data" "\<not> has_text data"
  shows "demo_tools_get_random_fact_try rt r \<noteq> Inr (Some s)"
proof (cases data)
  case (JObj kvs)
  with assms show ?thesis
    by (simp add: demo_tools_get_random_fact_try_def py_in_def has_text_def)
next
  case (JStr x)
  with assms show ?thesis
    by (simp add: demo_tools_get_random_fact_try_def py_in_def py_getitem_def)
next
  case (JArr xs)
  with assms show ?thesis
    by (simp add: demo_tools_get_random_fact_try_def py_in_def py_getitem_def)
qed (insert assms, simp_all add: demo_tools_get_random_fact_try_def py_in_def)

text \<open>When the \<open>try\<close> block of \<open>get_random_fact\<close> returns no fetched fact and the line
  of the \<open>except\<close> clause, if it is reached, can be printed, the function answers from its
  table.\<close>

lemma demo_tools_get_random_fact_falls_back:
  assumes "\<And>s. demo_tools_get_random_fact_try rt (reply w demo_tools_get_random_fact_request)
            \<noteq> Inr (Some s)"
    and "\<And>e. demo_tools_get_random_fact_try rt (reply w demo_tools_get_random_fact_request)
            = Inl e \<Longrightarrow> stdout_fault w (''Primary fact API failed: '' @ exc_text e) = None"
  shows "fst (demo_tools_get_random_fact rt w) = Inr (brain @ '' Random Fact: ''
       @ fallback_facts ! (rng_seq w (rng_pos w) mod length fallback_facts))"
  using assms by (simp add: demo_tools_get_random_fact_result split: sum.split option.split)

subsection \<open>The sample interpreter\<close>

lemma sample_runtime_simps [simp]:
  "builtin_eval sample_runtime = sample_eval 2"
  "builtin_eval deep_runtime = sample_eval 5"
  "stack_depth sample_runtime = 2"
  "stack_depth deep_runtime = 5"
  "eval_warnings sample_runtime = sample_warnings"
  "str_value sample_runtime v = Inr (sample_str v)"
  "restricted_eval sample_runtime = sample_restricted_eval"
  "format_value sample_runtime v w = (Returns (sample_str v), w)"
  "exception_str sample_runtime e w = (Returns (exc_text e), w)"
  "num_str sample_runtime n = Inr (show_int n)"
  "str_value deep_runtime v = Inr (sample_str v)"
  by (simp_all add: sample_runtime_def deep_runtime_def builtin_eval_def fun_eq_iff)

lemma show_int_small [simp]:
  "show_int 1 = ''1''" "show_int 2 = ''2''" "show_int 3 = ''3''" "show_int 4 = ''4''"
  "show_int 42 = ''42''" "show_int 100 = ''100''" "show_int 200 = ''200''"
  by (simp_all add: show_int_def show_nat.simps)

lemma sample_str_simps [simp]:
  "sample_str JNull = ''None''"
  "sample_str (JNum n) = show_int n"
  "sample_str (JStr s) = s"
  by (simp_all add: sample_str_def)

lemma not_allowed_7_mod_4: "\<not> all_allowed ''7 % 4''"
  by (simp add: all_allowed_def allowed_chars_def)

lemma allowed_2_plus_2: "all_allowed ''2+2''"
  by (simp add: all_allowed_def allowed_chars_def)

lemma allowed_call_of_number: "all_allowed ''1(2)''"
  by (simp add: all_allowed_def allowed_chars_def)

lemma allowed_nested_minus: "all_allowed nested_minus_expression"
  by (auto simp: all_allowed_def nested_minus_expression_def list_all_iff allowed_chars_def)

lemma sample_eval_nested_minus:
  "sample_eval depth sc nested_minus_expression =
     (if depth \<le> 2 then Inr (JNum 1)
      else Inl (Exn RecursionError ''maximum recursion depth exceeded during compilation''))"
proof -
  have "length nested_minus_expression = 2983"
    by (simp add: nested_minus_expression_def)
  then have "nested_minus_expression \<noteq> s" if "length s < 10" for s
    using that by auto
  then have "nested_minus_expression \<noteq> ''2+2''" "nested_minus_expression \<noteq> ''6*7''"
    "nested_minus_expression \<noteq> ''1/0''" "nested_minus_expression \<noteq> ''1(2)''"
    by simp_all
  then show ?thesis
    by (simp add: sample_eval_def)
qed

lemma sample_restricted_eval_simps:
  "sample_restricted_eval fr ''6*7'' w = (Returns (JNum 42), w)"
  "sample_restricted_eval fr ''7 % 4'' w = (Returns (JNum 3), w)"
  "sample_restricted_eval fr ''1/0'' w = (Raises (Exn ZeroDivisionError ''division by zero''), w)"
  "sample_restricted_eval fr caller_name_expression w = (Returns (JStr (frame_function fr)), w)"
  "sample_restricted_eval fr set_variable_expression w =
     (Returns JNull, w\<lparr>environ := (environ w)(''DEMO_FLAG'' \<mapsto> ''1'')\<rparr>)"
  "sample_restricted_eval fr get_variable_expression w =
     (Returns (case environ w ''DEMO_FLAG'' of None \<Rightarrow> JNull | Some s \<Rightarrow> JStr s), w)"
  "sample_restricted_eval fr system_exit_expression w = (Exits (SystemExit []), w)"
  by (simp_all add: sample_restricted_eval_def caller_name_expression_def
      set_variable_expression_def get_variable_expression_def system_exit_expression_def)

section \<open>What \<open>eval\<close>, the clock and the call stack can do\<close>

text \<open>
  The evaluators with emptied built-ins run whatever the expression says.
  \<open>simple_calculator\<close> sets an environment variable when asked to, and a later call reads
  it; and an expression that raises \<open>SystemExit\<close> ends the call with that exception, past
  the handler of \<open>except Exception\<close>.
\<close>

lemma simple_calculator_changes_environment:
  "environ (sample_world network_down) ''DEMO_FLAG'' = None
   \<and> environ (snd (simple_demo_simple_calculator sample_runtime set_variable_expression
                      (sample_world network_down))) ''DEMO_FLAG'' = Some ''1''
   \<and> fst (simple_demo_simple_calculator sample_runtime get_variable_expression
            (sample_world network_down)) = Returns ''Result: None''
   \<and> fst (simple_demo_simple_calculator sample_runtime get_variable_expression
            (snd (simple_demo_simple_calculator sample_runtime set_variable_expression
                    (sample_world network_down)))) = Returns ''Result: 1''"
  by (simp add: simple_demo_simple_calculator_def restricted_call_def
      sample_restricted_eval_simps sample_world_fields)

lemma simple_calculator_lets_SystemExit_out:
  "fst (simple_demo_simple_calculator sample_runtime system_exit_expression
          (sample_world network_down)) = Exits (SystemExit [])"
  by (simp add: simple_demo_simple_calculator_def restricted_call_def
      sample_restricted_eval_simps)

text \<open>
  A text within the allow-list is evaluated to the same value wherever it stands, but
  whether the compiler gets through it depends on how deep in the call stack \<open>eval\<close> is
  called: on the same text \<open>calculate\<close> returns the value from a shallow stack and the
  calculation-error message from a deeper one. The compiler also writes its warnings to
  standard error: \<open>calculate\<close> on \<open>1(2)\<close> leaves a line there.
\<close>

lemma calculate_depends_on_call_depth:
  "all_allowed nested_minus_expression
   \<and> stack_depth sample_runtime = 2 \<and> stack_depth deep_runtime = 5
   \<and> fst (demo_tools_calculate sample_runtime nested_minus_expression
            (sample_world network_down))
       = Inr (abacus @ '' '' @ nested_minus_expression @ '' = 1'')
   \<and> fst (demo_tools_calculate deep_runtime nested_minus_expression
            (sample_world network_down))
       = Inr (cross_mark @ '' Error calculating '' @ quote @ nested_minus_expression @ quote
              @ '': maximum recursion depth exceeded during compilation'')"
  by (simp add: allowed_nested_minus demo_tools_calculate_result sample_eval_nested_minus)

lemma calculate_writes_warning:
  "stderr (sample_world network_down) = []
   \<and> stderr (snd (demo_tools_calculate sample_runtime ''1(2)'' (sample_world network_down)))
       = [''<string>:1: SyntaxWarning: '' @ quote @ ''int'' @ quote
          @ '' object is not callable; perhaps you missed a comma?'']
   \<and> fst (demo_tools_calculate sample_runtime ''1(2)'' (sample_world network_down))
       = Inr (cross_mark @ '' Error calculating '' @ quote @ ''1(2)'' @ quote @ '': ''
              @ quote @ ''int'' @ quote @ '' object is not callable'')"
  by (simp add: allowed_call_of_number demo_tools_calculate_result demo_tools_calculate_world
      sample_world_fields sample_eval_def sample_warnings_def)

text \<open>\<open>get_system_info\<close> reports the time of the call: one second later, in a world
  that is otherwise the same, it returns another string. The first call in a process makes
  module \<open>platform\<close> run its command; the second finds the answer cached.\<close>

lemma get_system_info_depends_on_clock:
  "fst (simple_demo_get_system_info (sample_world network_down))
     \<noteq> fst (simple_demo_get_system_info
              ((sample_world network_down)\<lparr>machine :=
                 sample_host\<lparr>local_time := ''2025-01-01 12:00:01''\<rparr>\<rparr>))"
  by (simp add: simple_demo_get_system_info_result sample_world_fields sample_host_def)

lemma get_system_info_runs_command:
  "process_log (sample_world network_down) = []
   \<and> process_log (snd (simple_demo_get_system_info (sample_world network_down)))
       = [''uname -p'']
   \<and> process_log (snd (simple_demo_get_system_info
                         (snd (simple_demo_get_system_info (sample_world network_down)))))
       = [''uname -p'']
   \<and> fst (simple_demo_get_system_info
            (snd (simple_demo_get_system_info (sample_world network_down))))
       = fst (simple_demo_get_system_info (sample_world network_down))"
  by (simp add: simple_demo_get_system_info_world simple_demo_get_system_info_result
      sample_world_fields sample_host_def)

section \<open>The claims\<close>

text \<open>
  Claim C6 says that every invocation of a network-backed tool performs at most one HTTP
  GET. Every tool calls \<open>requests.get\<close> without \<open>allow_redirects=False\<close>, so the call
  follows redirects: when the service answers the GET for \<open>alan turing\<close> with a redirect
  to the page of that title, the one call that \<open>search_wikipedia\<close> of \<open>demo_tools.py\<close>
  makes sends two GETs.
\<close>

theorem single_http_get_counterexample:
  "http_log (sample_world
       (redirects ''https://en.wikipedia.org/api/rest_v1/page/summary/Alan_Turing''
          (JObj [(''title'', JStr ''Alan Turing''), (''extract'', JStr ''English mathematician'')])))
     = []
   \<and> call_log (snd (demo_tools_search_wikipedia sample_runtime ''alan turing''
        (sample_world
          (redirects ''https://en.wikipedia.org/api/rest_v1/page/summary/Alan_Turing''
            (JObj [(''title'', JStr ''Alan Turing''),
                   (''extract'', JStr ''English mathematician'')])))))
     = [demo_tools_search_wikipedia_request ''alan turing'']
   \<and> http_log (snd (demo_tools_search_wikipedia sample_runtime ''alan turing''
        (sample_world
          (redirects ''https://en.wikipedia.org/api/rest_v1/page/summary/Alan_Turing''
            (JObj [(''title'', JStr ''Alan Turing''),
                   (''extract'', JStr ''English mathematician'')])))))
     = [''https://en.wikipedia.org/api/rest_v1/page/summary/alan_turing'',
        ''https://en.wikipedia.org/api/rest_v1/page/summary/Alan_Turing'']"
  by (simp add: demo_tools_search_wikipedia_world sample_world_fields redirects_def
      demo_tools_search_wikipedia_request_def py_replace_def)

text \<open>
  Claim C6, amended. Every invocation of a network-backed tool makes at most one call of
  \<open>requests.get\<close>, on the success path and on the failure path alike: the log of calls
  grows by at most one entry, and the GETs sent are those of that one call, the GET of the
  request and one more for every redirect followed. So the invocation performs at most one
  GET whenever the service answers without a redirect. No tool repeats the call after a
  failure; \<open>get_random_fact\<close> of \<open>demo_tools.py\<close> makes exactly its one call, to
  \<open>uselessfacts.jsph.pl\<close>, and when that yields no fact it answers from its local table
  (after printing its line, if the \<open>try\<close> block raised).
\<close>

theorem single_requests_get_call:
  "at_most_one_call w (snd (demo_tools_convert_currency rt amount from_currency to_currency w))
   \<and> at_most_one_call w (snd (demo_tools_get_weather rt location celsius w))
   \<and> at_most_one_call w (snd (demo_tools_get_joke rt w))
   \<and> at_most_one_call w (snd (demo_tools_get_random_fact rt w))
   \<and> at_most_one_call w (snd (demo_tools_search_wikipedia rt query w))
   \<and> at_most_one_call w (snd (local_multiple_tools_get_weather rt location celsius' w))
   \<and> at_most_one_call w
       (snd (local_multiple_tools_convert_currency rt amount from_currency to_currency w))
   \<and> at_most_one_call w (snd (local_multiple_tools_get_joke rt w))
   \<and> at_most_one_call w (snd (local_multiple_tools_get_random_fact rt w))
   \<and> at_most_one_call w (snd (local_multiple_tools_search_wikipedia rt query w))
   \<and> call_log (snd (demo_tools_get_random_fact rt w))
       = call_log w @ [demo_tools_get_random_fact_request]
   \<and> ((\<forall>s. demo_tools_get_random_fact_try rt (reply w demo_tools_get_random_fact_request)
              \<noteq> Inr (Some s))
       \<and> (\<forall>e. demo_tools_get_random_fact_try rt (reply w demo_tools_get_random_fact_request)
                = Inl e
              \<longrightarrow> stdout_fault w (''Primary fact API failed: '' @ exc_text e) = None)
       \<longrightarrow> (\<exists>fact \<in> set fallback_facts.
              fst (demo_tools_get_random_fact rt w) = Inr (brain @ '' Random Fact: '' @ fact)))
   \<and> (at_most_one_call w w' \<and> (\<forall>req. length (sent (remote w (http_log w) req)) \<le> 1)
       \<longrightarrow> length (http_log w') \<le> length (http_log w) + 1)"
proof (intro conjI impI)
  show "at_most_one_call w (snd (demo_tools_convert_currency rt amount from_currency to_currency w))"
    by (rule at_most_one_call_one) (simp_all add: demo_tools_convert_currency_world)
  show "at_most_one_call w (snd (demo_tools_get_weather rt location celsius w))"
    by (simp add: demo_tools_get_weather_world at_most_one_call_def split: option.split)
  show "at_most_one_call w (snd (demo_tools_get_joke rt w))"
    by (simp add: demo_tools_get_joke_world at_most_one_call_def split: sum.split)
  show "at_most_one_call w (snd (demo_tools_get_random_fact rt w))"
    by (simp add: demo_tools_get_random_fact_world at_most_one_call_def
        split: sum.split option.split)
  show "at_most_one_call w (snd (demo_tools_search_wikipedia rt query w))"
    by (rule at_most_one_call_one) (simp_all add: demo_tools_search_wikipedia_world)
  show "at_most_one_call w (snd (local_multiple_tools_get_weather rt location celsius' w))"
    by (simp add: local_multiple_tools_get_weather_world at_most_one_call_def
        split: option.split)
  show "at_most_one_call w
     (snd (local_multiple_tools_convert_currency rt amount from_currency to_currency w))"
    by (rule at_most_one_call_one) (simp_all add: local_multiple_tools_convert_currency_world)
  show "at_most_one_call w (snd (local_multiple_tools_get_joke rt w))"
    by (rule at_most_one_call_one) (simp_all add: local_multiple_tools_get_joke_world)
  show "at_most_one_call w (snd (local_multiple_tools_get_random_fact rt w))"
    by (rule at_most_one_call_one) (simp_all add: local_multiple_tools_get_random_fact_world)
  show "at_most_one_call w (snd (local_multiple_tools_search_wikipedia rt query w))"
    by (rule at_most_one_call_one) (simp_all add: local_multiple_tools_search_wikipedia_world)
  show "call_log (snd (demo_tools_get_random_fact rt w))
       = call_log w @ [demo_tools_get_random_fact_request]"
    by (simp add: demo_tools_get_random_fact_world split: sum.split option.split)
next
  assume a: "(\<forall>s. demo_tools_get_random_fact_try rt (reply w demo_tools_get_random_fact_request)
              \<noteq> Inr (Some s))
       \<and> (\<forall>e. demo_tools_get_random_fact_try rt (reply w demo_tools_get_random_fact_request)
                = Inl e
              \<longrightarrow> stdout_fault w (''Primary fact API failed: '' @ exc_text e) = None)"
  then have "fst (demo_tools_get_random_fact rt w) = Inr (brain @ '' Random Fact: ''
       @ fallback_facts ! (rng_seq w (rng_pos w) mod length fallback_facts))"
    by (intro demo_tools_get_random_fact_falls_back) blast+
  then show "\<exists>fact \<in> set fallback_facts.
      fst (demo_tools_get_random_fact rt w) = Inr (brain @ '' Random Fact: '' @ fact)"
    using fallback_fact_member by blast
next
  assume a: "at_most_one_call w w' \<and> (\<forall>req. length (sent (remote w (http_log w) req)) \<le> 1)"
  then have "(call_log w' = call_log w \<and> http_log w' = http_log w)
         \<or> (\<exists>req. call_log w' = call_log w @ [req]
               \<and> http_log w' = http_log w @ sent (remote w (http_log w) req))"
    by (intro at_most_one_call_cases) simp
  with a show "length (http_log w') \<le> length (http_log w) + 1"
    by auto
qed

text \<open>With the remote services down and no redirect, \<open>convert_currency\<close> of
  \<open>local_multiple_tools.py\<close> has made one call and sent one GET; \<open>get_random_fact\<close> has
  made its one call and answers from its table.\<close>

theorem single_requests_get_call_witness:
  "at_most_one_call (sample_world network_down)
     (snd (local_multiple_tools_convert_currency sample_runtime 100 ''USD'' ''EUR''
            (sample_world network_down)))
   \<and> (\<forall>req. length (sent (remote (sample_world network_down)
                 (http_log (sample_world network_down)) req)) \<le> 1)
   \<and> length (http_log (snd (local_multiple_tools_convert_currency sample_runtime 100 ''USD''
                 ''EUR'' (sample_world network_down)))) \<le> 1
   \<and> call_log (snd (demo_tools_get_random_fact sample_runtime (sample_world network_down)))
       = [demo_tools_get_random_fact_request]
   \<and> (\<exists>fact \<in> set fallback_facts.
         fst (demo_tools_get_random_fact sample_runtime (sample_world network_down))
           = Inr (brain @ '' Random Fact: '' @ fact))"
proof -
  let ?w = "sample_world network_down"
  let ?w' = "snd (local_multiple_tools_convert_currency sample_runtime 100 ''USD'' ''EUR'' ?w)"
  note t = single_requests_get_call[where w = ?w and rt = sample_runtime and amount = 100
      and from_currency = "''USD''" and to_currency = "''EUR''" and w' = ?w']
  have l: "http_log ?w = []" "call_log ?w = []" "stdout_fault ?w = (\<lambda>s. None)"
    by (simp_all add: sample_world_fields)
  have n: "\<forall>req. length (sent (remote ?w (http_log ?w) req)) \<le> 1"
    by (simp add: sample_world_fields network_down_def)
  have d: "demo_tools_get_random_fact_try sample_runtime
             (reply ?w demo_tools_get_random_fact_request)
           = Inl (Exn RequestException ''Connection refused'')"
    by (simp add: try_blocks_network_down sample_world_fields)
  from t have a: "at_most_one_call ?w ?w'" by blast
  with t n have b: "length (http_log ?w') \<le> length (http_log ?w) + 1" by blast
  from t have c: "call_log (snd (demo_tools_get_random_fact sample_runtime ?w))
       = call_log ?w @ [demo_tools_get_random_fact_request]" by blast
  from t d l(3) have f: "\<exists>fact \<in> set fallback_facts.
         fst (demo_tools_get_random_fact sample_runtime ?w)
           = Inr (brain @ '' Random Fact: '' @ fact)"
    by simp
  from a n b c f l show ?thesis by simp
qed

text \<open>
  Claim C8. In \<open>calculate\<close> of \<open>demo_tools.py\<close> the dangerous-terms branch is dead code: an
  expression all of whose characters are in the allow-list contains none of the terms
  \<open>__\<close>, \<open>import\<close>, \<open>exec\<close>, \<open>eval\<close>, \<open>open\<close>, \<open>file\<close>, since each of them has a
  character outside the allow-list. So the function never returns the invalid-expression
  message: for every input it returns the invalid-characters message, the evaluated result,
  or the calculation-error message.
\<close>

theorem dangerous_terms_branch_unreachable:
  "(all_allowed expression \<longrightarrow> \<not> has_dangerous_term expression)
   \<and> fst (demo_tools_calculate rt expression w)
       \<noteq> Inr (cross_mark @ '' Invalid expression detected.'')
   \<and> (fst (demo_tools_calculate rt expression w)
         = Inr (cross_mark @ '' '' @ invalid_characters_message)
      \<or> (\<exists>v result. builtin_eval rt (ModuleScope ''demo_tools'') expression = Inr v
            \<and> str_value rt v = Inr result
            \<and> fst (demo_tools_calculate rt expression w)
                = Inr (abacus @ '' '' @ expression @ '' = '' @ result))
      \<or> (\<exists>e. fst (demo_tools_calculate rt expression w)
            = Inr (cross_mark @ '' Error calculating '' @ quote @ expression @ quote
                   @ '': '' @ exc_text e)))"
proof (cases "all_allowed expression")
  case False
  then show ?thesis
    by (simp add: demo_tools_calculate_rejected cross_mark_def invalid_characters_message_def)
next
  case True
  show ?thesis
  proof (cases "builtin_eval rt (ModuleScope ''demo_tools'') expression")
    case (Inl e)
    with True show ?thesis
      by (auto simp: demo_tools_calculate_accepted allowed_no_dangerous_term cross_mark_def)
  next
    case (Inr v)
    show ?thesis
    proof (cases "str_value rt v")
      case (Inl e)
      with True Inr show ?thesis
        by (auto simp: demo_tools_calculate_accepted allowed_no_dangerous_term cross_mark_def)
    next
      case r: (Inr result)
      with True Inr show ?thesis
        by (simp add: demo_tools_calculate_accepted allowed_no_dangerous_term cross_mark_def
            abacus_def)
    qed
  qed
qed

text \<open>The expression \<open>6*7\<close> passes the character check, holds no dangerous term, and is
  evaluated.\<close>

theorem dangerous_terms_branch_unreachable_witness:
  "all_allowed ''6*7'' \<and> \<not> has_dangerous_term ''6*7''
   \<and> fst (demo_tools_calculate sample_runtime ''6*7'' (sample_world network_down))
       = Inr (abacus @ '' 6*7 = 42'')"
proof -
  have a: "all_allowed ''6*7''" by (simp add: all_allowed_def allowed_chars_def)
  have v: "fst (demo_tools_calculate sample_runtime ''6*7'' (sample_world network_down))
       = Inr (abacus @ '' 6*7 = 42'')"
    by code_simp
  from a dangerous_terms_branch_unreachable[of "''6*7''" sample_runtime "sample_world network_down"]
  have "\<not> has_dangerous_term ''6*7''" by blast
  with a v show ?thesis by simp
qed

text \<open>
  Claim C9. When the environment variable \<open>WEATHERSTACK_API_KEY\<close> is unset, \<open>get_weather\<close>
  of \<open>demo_tools.py\<close> and of \<open>local_multiple_tools.py\<close> return their key-not-configured
  message at once, for every location and every value of the \<open>celsius\<close> flag, and leave the
  world as it was: no HTTP request is made.
\<close>

theorem get_weather_without_key:
  assumes "environ w ''WEATHERSTACK_API_KEY'' = None"
  shows "demo_tools_get_weather rt location celsius w
           = (Inr (cross_mark @ '' Weather API key not configured. ''
                   @ ''Please add WEATHERSTACK_API_KEY to your .env file.''), w)
         \<and> local_multiple_tools_get_weather rt location celsius' w
           = (Inr (''Weather API key not configured. ''
                   @ ''Please add WEATHERSTACK_API_KEY to your .env file.''), w)
         \<and> http_log (snd (demo_tools_get_weather rt location celsius w)) = http_log w
         \<and> http_log (snd (local_multiple_tools_get_weather rt location celsius' w)) = http_log w"
  using assms
  by (simp add: demo_tools_get_weather_def local_multiple_tools_get_weather_def os_getenv_def)

text \<open>In the sample world no variable is set.\<close>

theorem get_weather_without_key_witness:
  "environ (sample_world network_down) ''WEATHERSTACK_API_KEY'' = None
   \<and> fst (demo_tools_get_weather sample_runtime ''London'' True (sample_world network_down))
       = Inr (cross_mark @ '' Weather API key not configured. ''
              @ ''Please add WEATHERSTACK_API_KEY to your .env file.'')
   \<and> fst (local_multiple_tools_get_weather sample_runtime ''London'' None
            (sample_world network_down))
       = Inr (''Weather API key not configured. ''
              @ ''Please add WEATHERSTACK_API_KEY to your .env file.'')
   \<and> http_log (snd (demo_tools_get_weather sample_runtime ''London'' True
                      (sample_world network_down))) = []
   \<and> http_log (snd (local_multiple_tools_get_weather sample_runtime ''London'' None
                      (sample_world network_down))) = []"
proof -
  have h: "environ (sample_world network_down) ''WEATHERSTACK_API_KEY'' = None"
    by (simp add: sample_world_def)
  have l: "http_log (sample_world network_down) = []"
    by (simp add: sample_world_def)
  from get_weather_without_key[OF h, of sample_runtime "''London''" True None] h l
  show ?thesis by simp
qed

text \<open>
  Claim C1 says that every tool of \<open>demo_tools.py\<close> and of \<open>local_multiple_tools.py\<close>
  returns a string and never lets an exception out. The tools of \<open>local_multiple_tools.py\<close>
  catch \<open>requests.RequestException\<close> only: when the joke service answers with the empty
  object, \<open>data["error"]\<close> raises a \<open>KeyError\<close>, which leaves \<open>get_joke\<close>.
\<close>

theorem tools_never_raise_counterexample:
  "fst (local_multiple_tools_get_joke sample_runtime (sample_world (replies (JObj []))))
     = Inl (Exn KeyError (quote @ ''error'' @ quote))"
  by (simp add: local_multiple_tools_get_joke_result response_data_replies
      local_multiple_tools_get_joke_try_def py_getitem_def except_RequestException_def quote_def)

text \<open>
  Claim C1, amended. Every tool of \<open>demo_tools.py\<close> other than \<open>get_random_fact\<close>
  returns a string, whatever its call of \<open>requests.get\<close> raises or returns, and so does
  \<open>calculate\<close> of \<open>local_multiple_tools.py\<close>. \<open>get_random_fact\<close> of \<open>demo_tools.py\<close> returns a string
  unless its \<open>try\<close> block raised and the \<open>print\<close> of its \<open>except\<close> clause raises in
  turn (standard output is closed, or cannot encode the line): that exception leaves the
  function; in particular it returns a string whenever standard output takes the line. Every
  network-backed tool of \<open>local_multiple_tools.py\<close> returns its fallback message when the
  HTTP request raises a \<open>RequestException\<close>.
\<close>

theorem tools_return_on_failed_request:
  "(\<exists>s. fst (demo_tools_convert_currency rt amount from_currency to_currency w) = Inr s)
   \<and> (\<exists>s. fst (demo_tools_get_weather rt location celsius w) = Inr s)
   \<and> (\<exists>s. fst (demo_tools_get_joke rt w) = Inr s)
   \<and> ((\<exists>s. fst (demo_tools_get_random_fact rt w) = Inr s)
       \<or> (\<exists>x x'. demo_tools_get_random_fact_try rt (reply w demo_tools_get_random_fact_request)
                   = Inl x
             \<and> stdout_fault w (''Primary fact API failed: '' @ exc_text x) = Some x'
             \<and> fst (demo_tools_get_random_fact rt w) = Inl x'))
   \<and> ((\<forall>line. stdout_fault w line = None) \<longrightarrow>
         (\<exists>s. fst (demo_tools_get_random_fact rt w) = Inr s))
   \<and> (\<exists>s. fst (demo_tools_search_wikipedia rt query w) = Inr s)
   \<and> (\<exists>s. fst (demo_tools_calculate rt expression w) = Inr s)
   \<and> (\<exists>s. fst (local_multiple_tools_calculate rt expression w) = Inr s)
   \<and> (exc_cls e = RequestException \<longrightarrow>
        (environ w ''WEATHERSTACK_API_KEY'' = Some k \<and> k \<noteq> []
           \<and> response_data (reply w
                 (local_multiple_tools_get_weather_request k location celsius')) = Inl e \<longrightarrow>
         fst (local_multiple_tools_get_weather rt location celsius' w)
           = Inr (''Error fetching weather data: '' @ exc_text e))
      \<and> (response_data (reply w (local_multiple_tools_convert_currency_request
              (environ w ''EXCHANGE_API_KEY'') from_currency to_currency)) = Inl e \<longrightarrow>
         fst (local_multiple_tools_convert_currency rt amount from_currency to_currency w)
           = Inr (''Error fetching exchange rate: '' @ exc_text e))
      \<and> (response_data (reply w local_multiple_tools_get_joke_request) = Inl e \<longrightarrow>
         fst (local_multiple_tools_get_joke rt w)
           = Inr (JStr (''Error fetching joke: '' @ exc_text e)))
      \<and> (response_data (reply w (local_multiple_tools_get_random_fact_request
              (environ w ''API_NINJAS_KEY''))) = Inl e \<longrightarrow>
         fst (local_multiple_tools_get_random_fact rt w)
           = Inr (JStr (''Error fetching random fact: '' @ exc_text e)))
      \<and> (response_data (reply w (local_multiple_tools_search_wikipedia_request query))
            = Inl e \<longrightarrow>
         fst (local_multiple_tools_search_wikipedia rt query w)
           = Inr (''Error searching Wikipedia: '' @ exc_text e)))"
proof (intro conjI impI)
  show "\<exists>s. fst (demo_tools_convert_currency rt amount from_currency to_currency w) = Inr s"
    by (simp add: demo_tools_convert_currency_result except_Exception_returns)
  show "\<exists>s. fst (demo_tools_get_weather rt location celsius w) = Inr s"
    by (simp add: demo_tools_get_weather_result except_Exception_returns split: option.split)
  show "\<exists>s. fst (demo_tools_get_joke rt w) = Inr s"
    by (simp add: demo_tools_get_joke_result split: sum.split)
  show "(\<exists>s. fst (demo_tools_get_random_fact rt w) = Inr s)
       \<or> (\<exists>x x'. demo_tools_get_random_fact_try rt (reply w demo_tools_get_random_fact_request)
                   = Inl x
             \<and> stdout_fault w (''Primary fact API failed: '' @ exc_text x) = Some x'
             \<and> fst (demo_tools_get_random_fact rt w) = Inl x')"
    by (simp add: demo_tools_get_random_fact_result split: sum.split option.split)
  show "\<exists>s. fst (demo_tools_search_wikipedia rt query w) = Inr s"
    by (simp add: demo_tools_search_wikipedia_result except_Exception_returns)
  show "\<exists>s. fst (demo_tools_calculate rt expression w) = Inr s"
    by (simp add: demo_tools_calculate_result split: sum.split)
  show "\<exists>s. fst (local_multiple_tools_calculate rt expression w) = Inr s"
    by (simp add: local_multiple_tools_calculate_result split: sum.split)
next
  assume "\<forall>line. stdout_fault w line = None"
  then show "\<exists>s. fst (demo_tools_get_random_fact rt w) = Inr s"
    by (simp add: demo_tools_get_random_fact_result split: sum.split option.split)
next
  assume c: "exc_cls e = RequestException"
    and "environ w ''WEATHERSTACK_API_KEY'' = Some k \<and> k \<noteq> []
           \<and> response_data (reply w
                 (local_multiple_tools_get_weather_request k location celsius')) = Inl e"
  then show "fst (local_multiple_tools_get_weather rt location celsius' w)
           = Inr (''Error fetching weather data: '' @ exc_text e)"
    by (simp add: local_multiple_tools_get_weather_result try_blocks_fail_with_request
        except_RequestException_caught)
next
  assume c: "exc_cls e = RequestException"
    and "response_data (reply w (local_multiple_tools_convert_currency_request
              (environ w ''EXCHANGE_API_KEY'') from_currency to_currency)) = Inl e"
  then show "fst (local_multiple_tools_convert_currency rt amount from_currency to_currency w)
           = Inr (''Error fetching exchange rate: '' @ exc_text e)"
    by (simp add: local_multiple_tools_convert_currency_result try_blocks_fail_with_request
        except_RequestException_caught)
next
  assume c: "exc_cls e = RequestException"
    and "response_data (reply w local_multiple_tools_get_joke_request) = Inl e"
  then show "fst (local_multiple_tools_get_joke rt w)
           = Inr (JStr (''Error fetching joke: '' @ exc_text e))"
    by (simp add: local_multiple_tools_get_joke_result try_blocks_fail_with_request
        except_RequestException_caught)
next
  assume c: "exc_cls e = RequestException"
    and "response_data (reply w (local_multiple_tools_get_random_fact_request
              (environ w ''API_NINJAS_KEY''))) = Inl e"
  then show "fst (local_multiple_tools_get_random_fact rt w)
           = Inr (JStr (''Error fetching random fact: '' @ exc_text e))"
    by (simp add: local_multiple_tools_get_random_fact_result try_blocks_fail_with_request
        except_RequestException_caught)
next
  assume c: "exc_cls e = RequestException"
    and "response_data (reply w (local_multiple_tools_search_wikipedia_request query))
            = Inl e"
  then show "fst (local_multiple_tools_search_wikipedia rt query w)
           = Inr (''Error searching Wikipedia: '' @ exc_text e)"
    by (simp add: local_multiple_tools_search_wikipedia_result try_blocks_fail_with_request
        except_RequestException_caught)
qed

text \<open>With the weather key set and the remote services down, the five network-backed
  tools of \<open>local_multiple_tools.py\<close> return their messages, and \<open>get_random_fact\<close> of
  \<open>demo_tools.py\<close>, whose line is printed, returns a string.\<close>

theorem tools_return_on_failed_request_witness:
  "exc_cls (Exn RequestException ''Connection refused'') = RequestException
   \<and> environ keyed_world_down ''WEATHERSTACK_API_KEY'' = Some ''k'' \<and> ''k'' \<noteq> []
   \<and> (\<forall>req. response_data (reply keyed_world_down req)
         = Inl (Exn RequestException ''Connection refused''))
   \<and> (\<forall>line. stdout_fault keyed_world_down line = None)
   \<and> fst (local_multiple_tools_get_weather sample_runtime ''London'' None keyed_world_down)
       = Inr ''Error fetching weather data: Connection refused''
   \<and> fst (local_multiple_tools_convert_currency sample_runtime 100 ''USD'' ''EUR''
            keyed_world_down)
       = Inr ''Error fetching exchange rate: Connection refused''
   \<and> fst (local_multiple_tools_get_joke sample_runtime keyed_world_down)
       = Inr (JStr ''Error fetching joke: Connection refused'')
   \<and> fst (local_multiple_tools_get_random_fact sample_runtime keyed_world_down)
       = Inr (JStr ''Error fetching random fact: Connection refused'')
   \<and> fst (local_multiple_tools_search_wikipedia sample_runtime ''Python'' keyed_world_down)
       = Inr ''Error searching Wikipedia: Connection refused''
   \<and> (\<exists>s. fst (demo_tools_get_random_fact sample_runtime keyed_world_down) = Inr s)"
proof -
  have o: "\<forall>line. stdout_fault keyed_world_down line = None"
    by (simp add: keyed_world_down_def sample_world_def)
  from tools_return_on_failed_request[where w = keyed_world_down and rt = sample_runtime
      and e = "Exn RequestException ''Connection refused''" and k = "''k''"
      and location = "''London''" and celsius' = None and amount = 100
      and from_currency = "''USD''" and to_currency = "''EUR''" and query = "''Python''"] o
  show ?thesis
    by (simp add: keyed_world_down_facts)
qed

text \<open>
  Claim C3 says that \<open>get_random_fact\<close> of \<open>demo_tools.py\<close> returns a fact of its table
  whenever the external call fails. When the request raises, the \<open>except\<close> clause first
  prints a line, and that \<open>print\<close> stands inside no \<open>try\<close> block: with the remote services
  down and standard output closed, \<open>print\<close> raises a \<open>ValueError\<close>, which leaves the
  function, and nothing is returned.
\<close>

theorem fallback_from_fixed_tables_counterexample:
  "response_data (reply closed_stdout_world demo_tools_get_random_fact_request)
     = Inl (Exn RequestException ''Connection refused'')
   \<and> stdout_fault closed_stdout_world ''Primary fact API failed: Connection refused''
     = Some (Exn ValueError ''I/O operation on closed file.'')
   \<and> fst (demo_tools_get_random_fact sample_runtime closed_stdout_world)
     = Inl (Exn ValueError ''I/O operation on closed file.'')"
  by (simp add: demo_tools_get_random_fact_result closed_stdout_world_def sample_world_def
      reply_def network_down_def response_data_def demo_tools_get_random_fact_try_def)

text \<open>
  Claim C3, amended. When the external API call fails, \<open>get_joke\<close> of \<open>demo_tools.py\<close>
  returns the smiling-face emoji, a blank and one of its three fixed fallback jokes. When
  the call fails or the reply has no \<open>text\<close> field (it is not an object with a \<open>text\<close>
  member), \<open>get_random_fact\<close> of \<open>demo_tools.py\<close> returns \<open>Random Fact:\<close> after the brain
  emoji, followed by one of its five fixed fallback facts, provided that the line it prints
  first when its \<open>try\<close> block raised is taken by standard output; when that \<open>print\<close>
  raises, its exception leaves the function after the one request. The call fails when
  \<open>requests.get\<close>, \<open>raise_for_status\<close> or \<open>json\<close> raises.
\<close>

theorem fallback_from_fixed_tables:
  "(response_data (reply w demo_tools_get_joke_request) = Inl e \<longrightarrow>
      (\<exists>joke \<in> set fallback_jokes. fst (demo_tools_get_joke rt w) = Inr (smile @ '' '' @ joke)))
   \<and> ((response_data (reply w demo_tools_get_random_fact_request) = Inl e
         \<or> (\<exists>data. response_data (reply w demo_tools_get_random_fact_request) = Inr data
               \<and> \<not> has_text data))
       \<and> (\<forall>x. demo_tools_get_random_fact_try rt (reply w demo_tools_get_random_fact_request)
                 = Inl x
               \<longrightarrow> stdout_fault w (''Primary fact API failed: '' @ exc_text x) = None) \<longrightarrow>
      (\<exists>fact \<in> set fallback_facts.
         fst (demo_tools_get_random_fact rt w) = Inr (brain @ '' Random Fact: '' @ fact)))
   \<and> (demo_tools_get_random_fact_try rt (reply w demo_tools_get_random_fact_request) = Inl x
        \<and> stdout_fault w (''Primary fact API failed: '' @ exc_text x) = Some x' \<longrightarrow>
      demo_tools_get_random_fact rt w
        = (Inl x', after_get demo_tools_get_random_fact_request w))
   \<and> length fallback_jokes = 3 \<and> length fallback_facts = 5"
proof (intro conjI impI)
  assume "response_data (reply w demo_tools_get_joke_request) = Inl e"
  then have "demo_tools_get_joke_try rt (reply w demo_tools_get_joke_request) = Inl e"
    by (rule try_blocks_fail_with_request)
  then have "fst (demo_tools_get_joke rt w) = Inr (smile @ '' ''
       @ fallback_jokes ! (rng_seq w (rng_pos w) mod length fallback_jokes))"
    by (simp add: demo_tools_get_joke_result)
  then show "\<exists>joke \<in> set fallback_jokes.
      fst (demo_tools_get_joke rt w) = Inr (smile @ '' '' @ joke)"
    using fallback_joke_member by blast
next
  assume a: "(response_data (reply w demo_tools_get_random_fact_request) = Inl e
         \<or> (\<exists>data. response_data (reply w demo_tools_get_random_fact_request) = Inr data
               \<and> \<not> has_text data))
       \<and> (\<forall>x. demo_tools_get_random_fact_try rt (reply w demo_tools_get_random_fact_request)
                 = Inl x
               \<longrightarrow> stdout_fault w (''Primary fact API failed: '' @ exc_text x) = None)"
  then have "demo_tools_get_random_fact_try rt (reply w demo_tools_get_random_fact_request)
               \<noteq> Inr (Some s)" for s
    using try_blocks_fail_with_request(4)[of "reply w demo_tools_get_random_fact_request" e rt]
      demo_tools_get_random_fact_try_without_text[of
        "reply w demo_tools_get_random_fact_request" _ rt s]
    by auto
  moreover from a have "stdout_fault w (''Primary fact API failed: '' @ exc_text x) = None"
    if "demo_tools_get_random_fact_try rt (reply w demo_tools_get_random_fact_request) = Inl x"
    for x using that by blast
  ultimately have "fst (demo_tools_get_random_fact rt w) = Inr (brain @ '' Random Fact: ''
       @ fallback_facts ! (rng_seq w (rng_pos w) mod length fallback_facts))"
    by (rule demo_tools_get_random_fact_falls_back)
  then show "\<exists>fact \<in> set fallback_facts.
      fst (demo_tools_get_random_fact rt w) = Inr (brain @ '' Random Fact: '' @ fact)"
    using fallback_fact_member by blast
next
  assume "demo_tools_get_random_fact_try rt (reply w demo_tools_get_random_fact_request) = Inl x
        \<and> stdout_fault w (''Primary fact API failed: '' @ exc_text x) = Some x'"
  then show "demo_tools_get_random_fact rt w
        = (Inl x', after_get demo_tools_get_random_fact_request w)"
    by (simp add: demo_tools_get_random_fact_def requests_get_def print_line_def)
next
  show "length fallback_jokes = 3" by (rule fallback_jokes_length)
  show "length fallback_facts = 5" by (rule fallback_facts_length)
qed

text \<open>With the remote services down \<open>get_joke\<close> answers from its table, and so does
  \<open>get_random_fact\<close>, whose line standard output takes; with a reply that has no \<open>text\<close>
  member \<open>get_random_fact\<close> answers from its table too.\<close>

theorem fallback_from_fixed_tables_witness:
  "response_data (reply (sample_world network_down) demo_tools_get_joke_request)
     = Inl (Exn RequestException ''Connection refused'')
   \<and> (\<exists>joke \<in> set fallback_jokes.
         fst (demo_tools_get_joke sample_runtime (sample_world network_down))
           = Inr (smile @ '' '' @ joke))
   \<and> response_data (reply (sample_world network_down) demo_tools_get_random_fact_request)
     = Inl (Exn RequestException ''Connection refused'')
   \<and> (\<forall>line. stdout_fault (sample_world network_down) line = None)
   \<and> (\<exists>fact \<in> set fallback_facts.
         fst (demo_tools_get_random_fact sample_runtime (sample_world network_down))
           = Inr (brain @ '' Random Fact: '' @ fact))
   \<and> response_data (reply (sample_world (replies (JObj [(''fact'', JStr ''x'')])))
         demo_tools_get_random_fact_request) = Inr (JObj [(''fact'', JStr ''x'')])
   \<and> \<not> has_text (JObj [(''fact'', JStr ''x'' :: int json)])
   \<and> (\<exists>fact \<in> set fallback_facts.
         fst (demo_tools_get_random_fact sample_runtime
                (sample_world (replies (JObj [(''fact'', JStr ''x'')]))))
           = Inr (brain @ '' Random Fact: '' @ fact))"
proof -
  let ?down = "sample_world network_down"
  let ?up = "sample_world (replies (JObj [(''fact'', JStr ''x'')]))"
  have a: "response_data (reply ?down req) = Inl (Exn RequestException ''Connection refused'')"
    for req by (rule response_data_network_down)
  have b: "response_data (reply ?up demo_tools_get_random_fact_request)
         = Inr (JObj [(''fact'', JStr ''x'')])"
    by (rule response_data_replies)
  have c: "\<not> has_text (JObj [(''fact'', JStr ''x'' :: int json)])"
    by (simp add: has_text_def)
  have o: "\<forall>line. stdout_fault (sample_world net) line = None" for net
    by (simp add: sample_world_fields)
  note t1 = fallback_from_fixed_tables[of ?down "Exn RequestException ''Connection refused''"
      sample_runtime]
  note t2 = fallback_from_fixed_tables[of ?up "Exn RequestException ''Connection refused''"
      sample_runtime]
  from t1 a have j: "\<exists>joke \<in> set fallback_jokes.
         fst (demo_tools_get_joke sample_runtime ?down) = Inr (smile @ '' '' @ joke)"
    by blast
  from t1 a o have f1: "\<exists>fact \<in> set fallback_facts.
         fst (demo_tools_get_random_fact sample_runtime ?down)
           = Inr (brain @ '' Random Fact: '' @ fact)"
    by blast
  from t2 b c o have f2: "\<exists>fact \<in> set fallback_facts.
         fst (demo_tools_get_random_fact sample_runtime ?up)
           = Inr (brain @ '' Random Fact: '' @ fact)"
    by blast
  from a j o f1 b c f2 show ?thesis by blast
qed

text \<open>
  Claim C2 says that every arithmetic evaluator checks the characters of the expression
  against the allow-list and refuses, without evaluating, an expression with any other
  character. The evaluators of \<open>simple_demo.py\<close>, \<open>my_gradio_demo.py\<close> and
  \<open>my_agent_demo.py\<close> have no such check: \<open>simple_calculator\<close> evaluates \<open>7 % 4\<close>,
  whose \<open>%\<close> is outside the allow-list, and returns the result.
\<close>

theorem evaluators_character_check_counterexample:
  "\<not> all_allowed ''7 % 4''
   \<and> fst (simple_demo_simple_calculator sample_runtime ''7 % 4'' (sample_world network_down))
       = Returns ''Result: 3''
   \<and> eval_log (snd (simple_demo_simple_calculator sample_runtime ''7 % 4''
                      (sample_world network_down)))
       = [(RestrictedScope, ''7 % 4'')]"
  by (simp add: not_allowed_7_mod_4 simple_demo_simple_calculator_def restricted_call_def
      sample_restricted_eval_simps sample_world_fields)

text \<open>
  Claim C2, amended. \<open>calculate\<close> of \<open>demo_tools.py\<close> and of \<open>local_multiple_tools.py\<close>
  are a single allow-listed character check followed by a direct call of \<open>eval\<close>: an
  expression with a character outside the allow-list gets the invalid-characters message and
  nothing is evaluated; an expression within the allow-list is evaluated once, and the
  function returns the result, or the calculation-error message when evaluating or printing
  the result raises; the warnings of the evaluation go to standard error. The three
  evaluators with emptied built-ins check no character: they pass every expression to
  \<open>eval\<close>, once, and return the result in their wording when the evaluation and the
  formatting of its result return, and their error message when one of the two raises an
  \<open>Exception\<close> whose text can be taken; an exception outside \<open>Exception\<close> leaves the
  function.
\<close>

theorem evaluators_check_then_eval:
  "(\<not> all_allowed expression \<longrightarrow>
      demo_tools_calculate rt expression w
        = (Inr (cross_mark @ '' '' @ invalid_characters_message), w)
      \<and> local_multiple_tools_calculate rt expression w
        = (Inr (''Error: '' @ invalid_characters_message), w))
   \<and> (all_allowed expression \<longrightarrow>
      demo_tools_calculate rt expression w =
        (case and_then (builtin_eval rt (ModuleScope ''demo_tools'') expression)
                (str_value rt) of
           Inr result \<Rightarrow> Inr (abacus @ '' '' @ expression @ '' = '' @ result)
         | Inl e \<Rightarrow> Inr (cross_mark @ '' Error calculating '' @ quote @ expression @ quote
                       @ '': '' @ exc_text e),
         w\<lparr>stderr := stderr w @ eval_warnings rt (ModuleScope ''demo_tools'') expression,
           eval_log := eval_log w @ [(ModuleScope ''demo_tools'', expression)]\<rparr>)
      \<and> local_multiple_tools_calculate rt expression w =
        (case and_then (builtin_eval rt (ModuleScope ''local_multiple_tools'') expression)
                (str_value rt) of
           Inr result \<Rightarrow> Inr (expression @ '' = '' @ result)
         | Inl e \<Rightarrow> Inr (''Error calculating '' @ quote @ expression @ quote
                       @ '': '' @ exc_text e),
         w\<lparr>stderr := stderr w
              @ eval_warnings rt (ModuleScope ''local_multiple_tools'') expression,
           eval_log := eval_log w @ [(ModuleScope ''local_multiple_tools'', expression)]\<rparr>))
   \<and> (restricted_eval rt simple_calculator_frame expression
          (w\<lparr>eval_log := eval_log w @ [(RestrictedScope, expression)]\<rparr>) = (evaluated, w1) \<longrightarrow>
        (\<forall>v text w2. evaluated = Returns v \<and> format_value rt v w1 = (Returns text, w2) \<longrightarrow>
           simple_demo_simple_calculator rt expression w = (Returns (''Result: '' @ text), w2))
        \<and> (\<forall>x text w2. evaluated = Raises x \<and> exception_str rt x w1 = (Returns text, w2) \<longrightarrow>
           simple_demo_simple_calculator rt expression w = (Returns (''Error: '' @ text), w2))
        \<and> (\<forall>v x text w2 w3. evaluated = Returns v \<and> format_value rt v w1 = (Raises x, w2)
              \<and> exception_str rt x w2 = (Returns text, w3) \<longrightarrow>
           simple_demo_simple_calculator rt expression w = (Returns (''Error: '' @ text), w3))
        \<and> (\<forall>b. evaluated = Exits b \<longrightarrow>
           simple_demo_simple_calculator rt expression w = (Exits b, w1)))
   \<and> (restricted_eval rt my_gradio_demo_frame expression
          (w\<lparr>eval_log := eval_log w @ [(RestrictedScope, expression)]\<rparr>) = (evaluated, w1) \<longrightarrow>
        (\<forall>v text w2. evaluated = Returns v \<and> format_value rt v w1 = (Returns text, w2) \<longrightarrow>
           my_gradio_demo_calculate rt expression w = (Returns (''Result: '' @ text), w2))
        \<and> (\<forall>x text w2. evaluated = Raises x \<and> exception_str rt x w1 = (Returns text, w2) \<longrightarrow>
           my_gradio_demo_calculate rt expression w = (Returns (''Error: '' @ text), w2))
        \<and> (\<forall>v x text w2 w3. evaluated = Returns v \<and> format_value rt v w1 = (Raises x, w2)
              \<and> exception_str rt x w2 = (Returns text, w3) \<longrightarrow>
           my_gradio_demo_calculate rt expression w = (Returns (''Error: '' @ text), w3))
        \<and> (\<forall>b. evaluated = Exits b \<longrightarrow>
           my_gradio_demo_calculate rt expression w = (Exits b, w1)))
   \<and> (restricted_eval rt my_agent_demo_frame expression
          (w\<lparr>eval_log := eval_log w @ [(RestrictedScope, expression)]\<rparr>) = (evaluated, w1) \<longrightarrow>
        (\<forall>v text w2. evaluated = Returns v \<and> format_value rt v w1 = (Returns text, w2) \<longrightarrow>
           my_agent_demo_calculate rt expression w
             = (Returns (''The result of '' @ expression @ '' is '' @ text), w2))
        \<and> (\<forall>x text w2. evaluated = Raises x \<and> exception_str rt x w1 = (Returns text, w2) \<longrightarrow>
           my_agent_demo_calculate rt expression w
             = (Returns (''Error calculating '' @ expression @ '': '' @ text), w2))
        \<and> (\<forall>v x text w2 w3. evaluated = Returns v \<and> format_value rt v w1 = (Raises x, w2)
              \<and> exception_str rt x w2 = (Returns text, w3) \<longrightarrow>
           my_agent_demo_calculate rt expression w
             = (Returns (''Error calculating '' @ expression @ '': '' @ text), w3))
        \<and> (\<forall>b. evaluated = Exits b \<longrightarrow>
           my_agent_demo_calculate rt expression w = (Exits b, w1)))"
proof (intro conjI impI allI)
  assume "\<not> all_allowed expression"
  then show "demo_tools_calculate rt expression w
        = (Inr (cross_mark @ '' '' @ invalid_characters_message), w)"
    and "local_multiple_tools_calculate rt expression w
        = (Inr (''Error: '' @ invalid_characters_message), w)"
    by (simp_all add: demo_tools_calculate_rejected local_multiple_tools_calculate_rejected)
next
  assume "all_allowed expression"
  then show "demo_tools_calculate rt expression w =
        (case and_then (builtin_eval rt (ModuleScope ''demo_tools'') expression)
                (str_value rt) of
           Inr result \<Rightarrow> Inr (abacus @ '' '' @ expression @ '' = '' @ result)
         | Inl e \<Rightarrow> Inr (cross_mark @ '' Error calculating '' @ quote @ expression @ quote
                       @ '': '' @ exc_text e),
         w\<lparr>stderr := stderr w @ eval_warnings rt (ModuleScope ''demo_tools'') expression,
           eval_log := eval_log w @ [(ModuleScope ''demo_tools'', expression)]\<rparr>)"
    and "local_multiple_tools_calculate rt expression w =
        (case and_then (builtin_eval rt (ModuleScope ''local_multiple_tools'') expression)
                (str_value rt) of
           Inr result \<Rightarrow> Inr (expression @ '' = '' @ result)
         | Inl e \<Rightarrow> Inr (''Error calculating '' @ quote @ expression @ quote
                       @ '': '' @ exc_text e),
         w\<lparr>stderr := stderr w
              @ eval_warnings rt (ModuleScope ''local_multiple_tools'') expression,
           eval_log := eval_log w @ [(ModuleScope ''local_multiple_tools'', expression)]\<rparr>)"
    by (simp_all add: demo_tools_calculate_accepted local_multiple_tools_calculate_accepted
        after_eval_def)
qed (simp_all add: simple_demo_simple_calculator_def my_gradio_demo_calculate_def
    my_agent_demo_calculate_def restricted_call_def)

text \<open>The expression \<open>7 % 4\<close> is refused by the two checking evaluators and evaluated
  by \<open>calculate\<close> of \<open>my_agent_demo.py\<close>; \<open>2+2\<close> is evaluated by the checking ones; and
  \<open>calculate\<close> of \<open>my_gradio_demo.py\<close> returns its error message for \<open>1/0\<close>.\<close>

theorem evaluators_check_then_eval_witness:
  "\<not> all_allowed ''7 % 4''
   \<and> fst (demo_tools_calculate sample_runtime ''7 % 4'' (sample_world network_down))
       = Inr (cross_mark @ '' '' @ invalid_characters_message)
   \<and> eval_log (snd (demo_tools_calculate sample_runtime ''7 % 4'' (sample_world network_down)))
       = []
   \<and> fst (local_multiple_tools_calculate sample_runtime ''7 % 4'' (sample_world network_down))
       = Inr (''Error: '' @ invalid_characters_message)
   \<and> all_allowed ''2+2''
   \<and> fst (demo_tools_calculate sample_runtime ''2+2'' (sample_world network_down))
       = Inr (abacus @ '' 2+2 = 4'')
   \<and> eval_log (snd (demo_tools_calculate sample_runtime ''2+2'' (sample_world network_down)))
       = [(ModuleScope ''demo_tools'', ''2+2'')]
   \<and> fst (local_multiple_tools_calculate sample_runtime ''2+2'' (sample_world network_down))
       = Inr ''2+2 = 4''
   \<and> restricted_eval sample_runtime my_agent_demo_frame ''7 % 4''
        ((sample_world network_down)\<lparr>eval_log := [(RestrictedScope, ''7 % 4'')]\<rparr>)
       = (Returns (JNum 3),
          (sample_world network_down)\<lparr>eval_log := [(RestrictedScope, ''7 % 4'')]\<rparr>)
   \<and> fst (my_agent_demo_calculate sample_runtime ''7 % 4'' (sample_world network_down))
       = Returns ''The result of 7 % 4 is 3''
   \<and> restricted_eval sample_runtime my_gradio_demo_frame ''1/0''
        ((sample_world network_down)\<lparr>eval_log := [(RestrictedScope, ''1/0'')]\<rparr>)
       = (Raises (Exn ZeroDivisionError ''division by zero''),
          (sample_world network_down)\<lparr>eval_log := [(RestrictedScope, ''1/0'')]\<rparr>)
   \<and> fst (my_gradio_demo_calculate sample_runtime ''1/0'' (sample_world network_down))
       = Returns ''Error: division by zero''"
proof -
  let ?w = "sample_world network_down"
  let ?w7 = "?w\<lparr>eval_log := [(RestrictedScope, ''7 % 4'')]\<rparr>"
  let ?w1 = "?w\<lparr>eval_log := [(RestrictedScope, ''1/0'')]\<rparr>"
  have l: "eval_log ?w = []" "stderr ?w = []"
    by (simp_all add: sample_world_fields)
  have r7: "restricted_eval sample_runtime my_agent_demo_frame ''7 % 4'' ?w7
       = (Returns (JNum 3), ?w7)"
    by (simp add: sample_restricted_eval_simps)
  have r1: "restricted_eval sample_runtime my_gradio_demo_frame ''1/0'' ?w1
       = (Raises (Exn ZeroDivisionError ''division by zero''), ?w1)"
    by (simp add: sample_restricted_eval_simps)
  note t7 = evaluators_check_then_eval[of "''7 % 4''" sample_runtime ?w "Returns (JNum 3)" ?w7]
  note t2 = evaluators_check_then_eval[of "''2+2''" sample_runtime ?w "Returns (JNum 3)" ?w7]
  note t1 = evaluators_check_then_eval[of "''1/0''" sample_runtime ?w
      "Raises (Exn ZeroDivisionError ''division by zero'')" ?w1]
  from t7 not_allowed_7_mod_4
  have a: "demo_tools_calculate sample_runtime ''7 % 4'' ?w
        = (Inr (cross_mark @ '' '' @ invalid_characters_message), ?w)"
    and b: "local_multiple_tools_calculate sample_runtime ''7 % 4'' ?w
        = (Inr (''Error: '' @ invalid_characters_message), ?w)"
    by blast+
  from t2 allowed_2_plus_2
  have c: "demo_tools_calculate sample_runtime ''2+2'' ?w =
        (case and_then (builtin_eval sample_runtime (ModuleScope ''demo_tools'') ''2+2'')
                (str_value sample_runtime) of
           Inr result \<Rightarrow> Inr (abacus @ '' '' @ ''2+2'' @ '' = '' @ result)
         | Inl e \<Rightarrow> Inr (cross_mark @ '' Error calculating '' @ quote @ ''2+2'' @ quote
                       @ '': '' @ exc_text e),
         ?w\<lparr>stderr := stderr ?w @ eval_warnings sample_runtime (ModuleScope ''demo_tools'') ''2+2'',
           eval_log := eval_log ?w @ [(ModuleScope ''demo_tools'', ''2+2'')]\<rparr>)"
    and d: "local_multiple_tools_calculate sample_runtime ''2+2'' ?w =
        (case and_then (builtin_eval sample_runtime (ModuleScope ''local_multiple_tools'') ''2+2'')
                (str_value sample_runtime) of
           Inr result \<Rightarrow> Inr (''2+2'' @ '' = '' @ result)
         | Inl e \<Rightarrow> Inr (''Error calculating '' @ quote @ ''2+2'' @ quote
                       @ '': '' @ exc_text e),
         ?w\<lparr>stderr := stderr ?w
              @ eval_warnings sample_runtime (ModuleScope ''local_multiple_tools'') ''2+2'',
           eval_log := eval_log ?w @ [(ModuleScope ''local_multiple_tools'', ''2+2'')]\<rparr>)"
    by blast+
  from t7 r7 l have e: "my_agent_demo_calculate sample_runtime ''7 % 4'' ?w
       = (Returns (''The result of '' @ ''7 % 4'' @ '' is '' @ ''3''), ?w7)"
    by simp
  from t1 r1 l have f: "my_gradio_demo_calculate sample_runtime ''1/0'' ?w
       = (Returns (''Error: '' @ ''division by zero''), ?w1)"
    by simp
  from a b c d e f r7 r1 l not_allowed_7_mod_4 allowed_2_plus_2 show ?thesis
    by (simp add: sample_eval_def)
qed




text \<open>
  Claim C5 says that two invocations of a tool with the same arguments, the same environment
  variables and the same HTTP responses return the same string, and that no invocation
  changes state that a later one observes. With the remote services down, \<open>get_joke\<close> of
  \<open>demo_tools.py\<close> answers from its table by \<open>random.choice\<close>, which advances the global
  generator: called twice in a row, in the same environment and with the same failing
  request, it returns the first joke and then the second.
\<close>

theorem tool_calls_share_state_counterexample:
  "fst (demo_tools_get_joke sample_runtime (sample_world network_down))
     = Inr (smile @ '' '' @ fallback_jokes ! 0)
   \<and> fst (demo_tools_get_joke sample_runtime
            (snd (demo_tools_get_joke sample_runtime (sample_world network_down))))
     = Inr (smile @ '' '' @ fallback_jokes ! 1)
   \<and> fallback_jokes ! 0 \<noteq> fallback_jokes ! 1
   \<and> environ (snd (demo_tools_get_joke sample_runtime (sample_world network_down)))
     = environ (sample_world network_down)
   \<and> reply (snd (demo_tools_get_joke sample_runtime (sample_world network_down)))
        demo_tools_get_joke_request
     = reply (sample_world network_down) demo_tools_get_joke_request
   \<and> rng_pos (sample_world network_down) = 0
   \<and> rng_pos (snd (demo_tools_get_joke sample_runtime (sample_world network_down))) = 1"
proof -
  let ?w = "sample_world network_down"
  let ?w' = "snd (demo_tools_get_joke sample_runtime ?w)"
  have t: "demo_tools_get_joke_try sample_runtime (reply ?w demo_tools_get_joke_request)
             = Inl (Exn RequestException ''Connection refused'')"
    by (simp add: try_blocks_network_down sample_world_fields)
  have p: "rng_pos ?w' = 1" and r: "remote ?w' = network_down"
    and q: "rng_seq ?w' = (\<lambda>i. i)" and e: "environ ?w' = environ ?w"
    by (simp_all add: demo_tools_get_joke_world sample_world_fields t)
  have t': "demo_tools_get_joke_try sample_runtime (reply ?w' demo_tools_get_joke_request)
             = Inl (Exn RequestException ''Connection refused'')"
    by (simp add: try_blocks_network_down r)
  have s: "reply ?w' demo_tools_get_joke_request = reply ?w demo_tools_get_joke_request"
    by (simp add: reply_network_down r sample_world_fields)
  have d: "fallback_jokes ! 0 \<noteq> fallback_jokes ! 1"
    by (simp add: fallback_jokes_def)
  have a: "fst (demo_tools_get_joke sample_runtime ?w) = Inr (smile @ '' '' @ fallback_jokes ! 0)"
    by (simp add: demo_tools_get_joke_result sample_world_fields t fallback_jokes_length)
  have b: "fst (demo_tools_get_joke sample_runtime ?w') = Inr (smile @ '' '' @ fallback_jokes ! 1)"
    by (simp add: demo_tools_get_joke_result p q t' fallback_jokes_length)
  from a b d e p s show ?thesis
    by (simp add: sample_world_fields)
qed

text \<open>
  Claim C5, amended. The tools of \<open>demo_tools.py\<close> and \<open>local_multiple_tools.py\<close>,
  \<open>get_system_info\<close> and \<open>add_numbers\<close> share state through the global random generator
  only. Two invocations of one of them with the same arguments return the same value when
  they read the same things: the same environment variables and the same answers of the
  services; for \<open>get_joke\<close> and \<open>get_random_fact\<close> of \<open>demo_tools.py\<close> the same next draw
  of the generator; for that \<open>get_random_fact\<close> a standard output that takes or refuses
  the same lines; for \<open>get_system_info\<close> the same host and clock; and for the two
  \<open>calculate\<close> the same outcome of \<open>eval\<close> and of printing its result, which depends on
  the expression and on the state of the interpreter at the call. No invocation changes the
  environment variables or the sequence of the generator, and only the fallback branches of
  \<open>get_joke\<close> and \<open>get_random_fact\<close> of \<open>demo_tools.py\<close> advance the generator. The one
  other thing a call leaves behind in the process is the cache of module \<open>platform\<close>,
  which only \<open>get_system_info\<close> fills and on which no returned value depends. (The three
  evaluators with emptied built-ins are left out: what they read and change is up to the
  expression, see \<open>simple_calculator_changes_environment\<close>.)
\<close>

theorem tool_calls_share_only_generator:
  "(same_reads c w1 w2 \<and> \<not> is_calculate c \<longrightarrow> fst (invoke rt c w1) = fst (invoke rt c w2))
   \<and> (and_then (builtin_eval rt1 (ModuleScope ''demo_tools'') expression) (str_value rt1)
         = and_then (builtin_eval rt2 (ModuleScope ''demo_tools'') expression) (str_value rt2)
       \<longrightarrow> fst (invoke rt1 (DemoCalculate expression) w1)
           = fst (invoke rt2 (DemoCalculate expression) w2))
   \<and> (and_then (builtin_eval rt1 (ModuleScope ''local_multiple_tools'') expression)
          (str_value rt1)
         = and_then (builtin_eval rt2 (ModuleScope ''local_multiple_tools'') expression)
             (str_value rt2)
       \<longrightarrow> fst (invoke rt1 (LocalCalculate expression) w1)
           = fst (invoke rt2 (LocalCalculate expression) w2))
   \<and> environ (snd (invoke rt c' w)) = environ w
   \<and> rng_seq (snd (invoke rt c' w)) = rng_seq w
   \<and> (\<not> uses_generator c' \<longrightarrow> rng_pos (snd (invoke rt c' w)) = rng_pos w)
   \<and> (uses_generator c' \<longrightarrow> rng_pos (snd (invoke rt c' w)) = rng_pos w
         \<or> rng_pos (snd (invoke rt c' w)) = rng_pos w + 1)
   \<and> (\<not> reads_host c' \<longrightarrow>
         platform_cached (snd (invoke rt c' w)) = platform_cached w)"
proof (intro conjI impI)
  assume "same_reads c w1 w2 \<and> \<not> is_calculate c"
  then show "fst (invoke rt c w1) = fst (invoke rt c w2)"
    by (simp add: invoke_deterministic)
next
  assume "and_then (builtin_eval rt1 (ModuleScope ''demo_tools'') expression) (str_value rt1)
         = and_then (builtin_eval rt2 (ModuleScope ''demo_tools'') expression) (str_value rt2)"
  then show "fst (invoke rt1 (DemoCalculate expression) w1)
           = fst (invoke rt2 (DemoCalculate expression) w2)"
    by (simp add: demo_tools_calculate_result)
next
  assume "and_then (builtin_eval rt1 (ModuleScope ''local_multiple_tools'') expression)
          (str_value rt1)
         = and_then (builtin_eval rt2 (ModuleScope ''local_multiple_tools'') expression)
             (str_value rt2)"
  then show "fst (invoke rt1 (LocalCalculate expression) w1)
           = fst (invoke rt2 (LocalCalculate expression) w2)"
    by (simp add: local_multiple_tools_calculate_result)
next
  show "environ (snd (invoke rt c' w)) = environ w" by (rule invoke_environ)
  show "rng_seq (snd (invoke rt c' w)) = rng_seq w" by (rule invoke_rng_seq)
next
  assume "\<not> uses_generator c'"
  then show "rng_pos (snd (invoke rt c' w)) = rng_pos w" by (rule invoke_rng_pos_same)
next
  assume "uses_generator c'"
  show "rng_pos (snd (invoke rt c' w)) = rng_pos w
         \<or> rng_pos (snd (invoke rt c' w)) = rng_pos w + 1"
    using invoke_rng_pos[of rt c' w] by blast
next
  assume "\<not> reads_host c'"
  then show "platform_cached (snd (invoke rt c' w)) = platform_cached w"
    by (rule invoke_platform_cached)
qed

text \<open>\<open>get_joke\<close> of \<open>local_multiple_tools.py\<close> leaves the generator alone, so that
  \<open>get_joke\<close> of \<open>demo_tools.py\<close> reads the same things after it as without it and returns
  the same joke; and \<open>calculate\<close> returns the same for \<open>6*7\<close> in any two worlds.\<close>

theorem tool_calls_share_only_generator_witness:
  "\<not> uses_generator (LocalGetJoke :: int tool_call)
   \<and> \<not> is_calculate (DemoGetJoke :: int tool_call)
   \<and> rng_pos (snd (invoke sample_runtime LocalGetJoke (sample_world network_down)))
       = rng_pos (sample_world network_down)
   \<and> same_reads DemoGetJoke (sample_world network_down)
        (snd (invoke sample_runtime LocalGetJoke (sample_world network_down)))
   \<and> fst (invoke sample_runtime DemoGetJoke
            (snd (invoke sample_runtime LocalGetJoke (sample_world network_down))))
       = fst (invoke sample_runtime DemoGetJoke (sample_world network_down))
   \<and> fst (invoke sample_runtime (DemoCalculate ''6*7'') (sample_world network_down))
       = fst (invoke sample_runtime (DemoCalculate ''6*7'') keyed_world_down)"
proof -
  let ?w = "sample_world network_down"
  let ?w' = "snd (invoke sample_runtime LocalGetJoke ?w)"
  have n: "\<not> uses_generator (LocalGetJoke :: int tool_call)"
    by (simp add: uses_generator_def)
  have m: "\<not> is_calculate (DemoGetJoke :: int tool_call)"
    by (simp add: is_calculate_def)
  note t = tool_calls_share_only_generator[where c = DemoGetJoke and c' = LocalGetJoke
      and w = ?w and rt = sample_runtime and ?w1.0 = ?w and ?w2.0 = ?w'
      and ?rt1.0 = sample_runtime and ?rt2.0 = sample_runtime and expression = "''6*7''"]
  note u = tool_calls_share_only_generator[where c = DemoGetJoke and c' = LocalGetJoke
      and w = ?w and rt = sample_runtime and ?w1.0 = ?w and ?w2.0 = keyed_world_down
      and ?rt1.0 = sample_runtime and ?rt2.0 = sample_runtime and expression = "''6*7''"]
  from t n have p: "rng_pos ?w' = rng_pos ?w" and e: "environ ?w' = environ ?w"
    and q: "rng_seq ?w' = rng_seq ?w"
    by blast+
  have r: "remote ?w' = network_down"
    by (simp only: invoke_remote sample_world_fields)
  have r0: "remote ?w = network_down"
    by (simp add: sample_world_fields)
  have "reply ?w req = reply ?w' req" for req
    by (simp only: reply_network_down[OF r] reply_network_down[OF r0])
  then have "reply ?w = reply ?w'" by (rule ext)
  with p e q have s: "same_reads DemoGetJoke ?w ?w'"
    by (simp add: same_reads_def next_draw_def prints_def reads_host_def)
  from t s m have a: "fst (invoke sample_runtime DemoGetJoke ?w')
       = fst (invoke sample_runtime DemoGetJoke ?w)"
    by simp
  from u have b: "fst (invoke sample_runtime (DemoCalculate ''6*7'') ?w)
       = fst (invoke sample_runtime (DemoCalculate ''6*7'') keyed_world_down)"
    by blast
  from n m p s a b show ?thesis by blast
qed

text \<open>
  Claim C7 says that the only external effect of a tool is its HTTP GET and its only output
  the returned string. When its request raises, \<open>get_random_fact\<close> of \<open>demo_tools.py\<close>
  prints a line to standard output before it falls back.
\<close>

theorem get_random_fact_prints_counterexample:
  "stdout (sample_world network_down) = []
   \<and> stdout (snd (demo_tools_get_random_fact sample_runtime (sample_world network_down)))
       = [''Primary fact API failed: Connection refused'']"
  by (simp add: demo_tools_get_random_fact_world sample_world_fields try_blocks_network_down)

text \<open>
  Claim C7, amended. No tool of \<open>demo_tools.py\<close> or \<open>local_multiple_tools.py\<close>, nor
  \<open>get_system_info\<close> or \<open>add_numbers\<close>, persists anything: every call leaves the filesystem
  and the process environment unchanged. Its effects are at most one call of
  \<open>requests.get\<close> (one HTTP GET, and one more for every redirect followed); in
  \<open>demo_tools.py\<close>, one draw of the random generator when \<open>get_joke\<close> or
  \<open>get_random_fact\<close> falls back, and the one line that \<open>get_random_fact\<close> prints to
  standard output when its \<open>try\<close> block raised; for the two \<open>calculate\<close> on an
  expression within the allow-list, the warnings that the evaluation writes to standard
  error; and, for \<open>get_system_info\<close>, the commands that module \<open>platform\<close> runs in a
  child process when it has no description of the host cached. No other tool prints, no
  other tool writes to standard error, and no other tool runs a command. (The three
  evaluators with emptied built-ins are left out: an expression can change the environment,
  see \<open>simple_calculator_changes_environment\<close>.)
\<close>

theorem tools_persist_nothing:
  "environ (snd (invoke rt c w)) = environ w
   \<and> files (snd (invoke rt c w)) = files w
   \<and> at_most_one_call w (snd (invoke rt c w))
   \<and> (\<not> prints c \<longrightarrow> stdout (snd (invoke rt c w)) = stdout w)
   \<and> (stdout (snd (demo_tools_get_random_fact rt w)) = stdout w
       \<or> (\<exists>e. demo_tools_get_random_fact_try rt (reply w demo_tools_get_random_fact_request)
                 = Inl e
             \<and> stdout (snd (demo_tools_get_random_fact rt w))
                 = stdout w @ [''Primary fact API failed: '' @ exc_text e]))
   \<and> (rng_pos (snd (invoke rt c w)) = rng_pos w
       \<or> (uses_generator c \<and> rng_pos (snd (invoke rt c w)) = rng_pos w + 1))
   \<and> (\<not> is_calculate c \<longrightarrow> stderr (snd (invoke rt c w)) = stderr w)
   \<and> stderr (snd (demo_tools_calculate rt expression w))
       = (if all_allowed expression
          then stderr w @ eval_warnings rt (ModuleScope ''demo_tools'') expression
          else stderr w)
   \<and> stderr (snd (local_multiple_tools_calculate rt expression w))
       = (if all_allowed expression
          then stderr w @ eval_warnings rt (ModuleScope ''local_multiple_tools'') expression
          else stderr w)
   \<and> (\<not> reads_host c \<longrightarrow> process_log (snd (invoke rt c w)) = process_log w)
   \<and> process_log (snd (simple_demo_get_system_info w))
       = (if platform_cached w then process_log w
          else process_log w @ probe_commands (machine w))"
proof (intro conjI impI)
  show "environ (snd (invoke rt c w)) = environ w" by (rule invoke_environ)
  show "files (snd (invoke rt c w)) = files w" by (rule invoke_files)
  show "at_most_one_call w (snd (invoke rt c w))" by (rule invoke_at_most_one_call)
  show "stdout (snd (demo_tools_get_random_fact rt w)) = stdout w
       \<or> (\<exists>e. demo_tools_get_random_fact_try rt (reply w demo_tools_get_random_fact_request)
                 = Inl e
             \<and> stdout (snd (demo_tools_get_random_fact rt w))
                 = stdout w @ [''Primary fact API failed: '' @ exc_text e])"
    by (simp add: demo_tools_get_random_fact_world split: sum.split option.split)
  show "rng_pos (snd (invoke rt c w)) = rng_pos w
       \<or> (uses_generator c \<and> rng_pos (snd (invoke rt c w)) = rng_pos w + 1)"
    by (rule invoke_rng_pos)
  show "stderr (snd (demo_tools_calculate rt expression w))
       = (if all_allowed expression
          then stderr w @ eval_warnings rt (ModuleScope ''demo_tools'') expression
          else stderr w)"
    by (simp add: demo_tools_calculate_world)
  show "stderr (snd (local_multiple_tools_calculate rt expression w))
       = (if all_allowed expression
          then stderr w @ eval_warnings rt (ModuleScope ''local_multiple_tools'') expression
          else stderr w)"
    by (simp add: local_multiple_tools_calculate_world)
  show "process_log (snd (simple_demo_get_system_info w))
       = (if platform_cached w then process_log w
          else process_log w @ probe_commands (machine w))"
    by (simp add: simple_demo_get_system_info_world)
next
  assume "\<not> reads_host c"
  then show "process_log (snd (invoke rt c w)) = process_log w"
    by (rule invoke_process_log)
next
  assume "\<not> prints c"
  then show "stdout (snd (invoke rt c w)) = stdout w" by (rule invoke_stdout)
next
  assume "\<not> is_calculate c"
  then show "stderr (snd (invoke rt c w)) = stderr w"
    using invoke_stderr[of rt c w] by (cases c) (simp_all add: is_calculate_def)
qed

text \<open>\<open>get_joke\<close> of \<open>demo_tools.py\<close> with the remote services down: nothing printed,
  nothing on standard error, no command run, no variable set, no file written, one call of
  \<open>requests.get\<close>.\<close>

theorem tools_persist_nothing_witness:
  "\<not> prints (DemoGetJoke :: int tool_call)
   \<and> \<not> is_calculate (DemoGetJoke :: int tool_call)
   \<and> \<not> reads_host (DemoGetJoke :: int tool_call)
   \<and> process_log (snd (invoke sample_runtime DemoGetJoke (sample_world network_down))) = []
   \<and> stdout (snd (invoke sample_runtime DemoGetJoke (sample_world network_down))) = []
   \<and> stderr (snd (invoke sample_runtime DemoGetJoke (sample_world network_down))) = []
   \<and> environ (snd (invoke sample_runtime DemoGetJoke (sample_world network_down)))
       ''WEATHERSTACK_API_KEY'' = None
   \<and> files (snd (invoke sample_runtime DemoGetJoke (sample_world network_down))) = Map.empty
   \<and> at_most_one_call (sample_world network_down)
        (snd (invoke sample_runtime DemoGetJoke (sample_world network_down)))"
proof -
  note s = sample_world_fields[of network_down]
  have n: "\<not> prints (DemoGetJoke :: int tool_call)"
    "\<not> is_calculate (DemoGetJoke :: int tool_call)"
    "\<not> reads_host (DemoGetJoke :: int tool_call)"
    by (simp_all add: prints_def is_calculate_def reads_host_def)
  from tools_persist_nothing[of sample_runtime DemoGetJoke "sample_world network_down"] n s
  show ?thesis by simp
qed

text \<open>
  Claim C10 says that \<open>convert_currency\<close> returns the could-not-find message whenever the
  free-tier reply holds no rate for the target currency. When the reply is the object
  \<open>{"rates": null}\<close>, the test \<open>to_currency in data["rates"]\<close> raises a \<open>TypeError\<close>, and
  \<open>convert_currency\<close> of \<open>demo_tools.py\<close> returns its error-fetching message instead.
\<close>

theorem convert_currency_no_rate_counterexample:
  "response_data (reply (sample_world (replies (JObj [(''rates'', JNull)])))
      (demo_tools_convert_currency_request ''USD'')) = Inr (JObj [(''rates'', JNull)])
   \<and> fst (demo_tools_convert_currency sample_runtime 100 ''USD'' ''EUR''
            (sample_world (replies (JObj [(''rates'', JNull)]))))
       = Inr (cross_mark @ '' Error fetching exchange rate: argument of type ''
              @ quote @ ''NoneType'' @ quote @ '' is not iterable'')
   \<and> fst (demo_tools_convert_currency sample_runtime 100 ''USD'' ''EUR''
            (sample_world (replies (JObj [(''rates'', JNull)]))))
       \<noteq> Inr (cross_mark @ '' Could not find exchange rate for USD to EUR'')"
  by (simp add: demo_tools_convert_currency_result response_data_replies
      demo_tools_convert_currency_try_def py_in_def py_getitem_def type_name_def
      except_Exception_def quote_def cross_mark_def)

text \<open>
  Claim C10, amended. For every amount and currency pair, \<open>convert_currency\<close> of
  \<open>demo_tools.py\<close>, and \<open>convert_currency\<close> of \<open>local_multiple_tools.py\<close> on the free tier
  (with \<open>EXCHANGE_API_KEY\<close> unset or empty): when the reply is an object whose \<open>rates\<close>
  object holds a number \<open>r\<close> for the target currency, and the product \<open>amount * r\<close>, the
  text of the amount and the formatting of the product and of the rate are defined, the
  function returns the string that reports the product to two decimal places together with
  the rate (to four decimal places in \<open>demo_tools.py\<close>, as \<open>str\<close> prints it in
  \<open>local_multiple_tools.py\<close>); when the reply is an object that has no \<open>rates\<close> member, or
  whose \<open>rates\<close> object has no entry for the target currency, it returns the could-not-find
  message, which reports no amount.
\<close>

theorem convert_currency_free_tier:
  "(response_data (reply w (demo_tools_convert_currency_request from_currency)) = Inr data \<longrightarrow>
      (has_rate data to_currency rate \<and> py_mul rt amount (JNum rate) = Inr converted
         \<and> num_str rt amount = Inr amount_text
         \<and> format_fixed rt 2 converted = Inr converted_text
         \<and> format_fixed rt 4 (JNum rate) = Inr rate_text \<longrightarrow>
       fst (demo_tools_convert_currency rt amount from_currency to_currency w)
         = Inr (money_bag @ '' '' @ amount_text @ '' '' @ from_currency @ '' = ''
                @ converted_text @ '' '' @ to_currency @ '' (Rate: '' @ rate_text @ '')''))
      \<and> (lacks_rate data to_currency \<longrightarrow>
       fst (demo_tools_convert_currency rt amount from_currency to_currency w)
         = Inr (cross_mark @ '' Could not find exchange rate for '' @ from_currency
                @ '' to '' @ to_currency)))
   \<and> (\<not> has_key (environ w ''EXCHANGE_API_KEY'')
       \<and> response_data (reply w (local_multiple_tools_convert_currency_request
             (environ w ''EXCHANGE_API_KEY'') from_currency to_currency)) = Inr data' \<longrightarrow>
      (has_rate data' to_currency rate' \<and> py_mul rt amount (JNum rate') = Inr converted'
         \<and> num_str rt amount = Inr amount_text'
         \<and> format_fixed rt 2 converted' = Inr converted_text'
         \<and> num_str rt rate' = Inr rate_text' \<longrightarrow>
       fst (local_multiple_tools_convert_currency rt amount from_currency to_currency w)
         = Inr (amount_text' @ '' '' @ from_currency @ '' = '' @ converted_text'
                @ '' '' @ to_currency @ '' (Rate: '' @ rate_text' @ '')''))
      \<and> (lacks_rate data' to_currency \<longrightarrow>
       fst (local_multiple_tools_convert_currency rt amount from_currency to_currency w)
         = Inr (''Error: Could not find exchange rate for '' @ from_currency
                @ '' to '' @ to_currency)))"
proof (intro conjI impI)
  assume d: "response_data (reply w (demo_tools_convert_currency_request from_currency))
               = Inr data"
    and a: "has_rate data to_currency rate \<and> py_mul rt amount (JNum rate) = Inr converted
         \<and> num_str rt amount = Inr amount_text
         \<and> format_fixed rt 2 converted = Inr converted_text
         \<and> format_fixed rt 4 (JNum rate) = Inr rate_text"
  from a have h: "has_rate data to_currency rate"
    and m: "py_mul rt amount (JNum rate) = Inr converted"
    and n: "num_str rt amount = Inr amount_text"
    and f: "format_fixed rt 2 converted = Inr converted_text"
    and g: "format_fixed rt 4 (JNum rate) = Inr rate_text"
    by simp_all
  show "fst (demo_tools_convert_currency rt amount from_currency to_currency w)
         = Inr (money_bag @ '' '' @ amount_text @ '' '' @ from_currency @ '' = ''
                @ converted_text @ '' '' @ to_currency @ '' (Rate: '' @ rate_text @ '')'')"
    by (simp add: demo_tools_convert_currency_result
        demo_tools_convert_currency_try_rate[OF d h m n f g])
next
  assume d: "response_data (reply w (demo_tools_convert_currency_request from_currency))
               = Inr data"
    and l: "lacks_rate data to_currency"
  show "fst (demo_tools_convert_currency rt amount from_currency to_currency w)
         = Inr (cross_mark @ '' Could not find exchange rate for '' @ from_currency
                @ '' to '' @ to_currency)"
    by (simp add: demo_tools_convert_currency_result
        demo_tools_convert_currency_try_no_rate[OF d l])
next
  assume k: "\<not> has_key (environ w ''EXCHANGE_API_KEY'')
       \<and> response_data (reply w (local_multiple_tools_convert_currency_request
             (environ w ''EXCHANGE_API_KEY'') from_currency to_currency)) = Inr data'"
    and a: "has_rate data' to_currency rate' \<and> py_mul rt amount (JNum rate') = Inr converted'
         \<and> num_str rt amount = Inr amount_text'
         \<and> format_fixed rt 2 converted' = Inr converted_text'
         \<and> num_str rt rate' = Inr rate_text'"
  from k have k1: "\<not> has_key (environ w ''EXCHANGE_API_KEY'')"
    and d: "response_data (reply w (local_multiple_tools_convert_currency_request
             (environ w ''EXCHANGE_API_KEY'') from_currency to_currency)) = Inr data'"
    by simp_all
  from a have h: "has_rate data' to_currency rate'"
    and m: "py_mul rt amount (JNum rate') = Inr converted'"
    and n: "num_str rt amount = Inr amount_text'"
    and f: "format_fixed rt 2 converted' = Inr converted_text'"
    and g: "num_str rt rate' = Inr rate_text'"
    by simp_all
  show "fst (local_multiple_tools_convert_currency rt amount from_currency to_currency w)
         = Inr (amount_text' @ '' '' @ from_currency @ '' = '' @ converted_text'
                @ '' '' @ to_currency @ '' (Rate: '' @ rate_text' @ '')'')"
    by (simp add: local_multiple_tools_convert_currency_result
        local_multiple_tools_convert_currency_try_rate[OF k1 d h m n f g])
next
  assume k: "\<not> has_key (environ w ''EXCHANGE_API_KEY'')
       \<and> response_data (reply w (local_multiple_tools_convert_currency_request
             (environ w ''EXCHANGE_API_KEY'') from_currency to_currency)) = Inr data'"
    and l: "lacks_rate data' to_currency"
  from k have k1: "\<not> has_key (environ w ''EXCHANGE_API_KEY'')"
    and d: "response_data (reply w (local_multiple_tools_convert_currency_request
             (environ w ''EXCHANGE_API_KEY'') from_currency to_currency)) = Inr data'"
    by simp_all
  show "fst (local_multiple_tools_convert_currency rt amount from_currency to_currency w)
         = Inr (''Error: Could not find exchange rate for '' @ from_currency
                @ '' to '' @ to_currency)"
    by (simp add: local_multiple_tools_convert_currency_result
        local_multiple_tools_convert_currency_try_no_rate[OF k1 d l])
qed

text \<open>A reply quoting 2 for EUR: 100 USD are 200.00 EUR, and no rate is found for
  GBP.\<close>

theorem convert_currency_free_tier_witness:
  "\<not> has_key (environ rates_world ''EXCHANGE_API_KEY'')
   \<and> response_data (reply rates_world (demo_tools_convert_currency_request ''USD''))
       = Inr (JObj [(''rates'', JObj [(''EUR'', JNum 2)])])
   \<and> response_data (reply rates_world (local_multiple_tools_convert_currency_request
         (environ rates_world ''EXCHANGE_API_KEY'') ''USD'' ''EUR''))
       = Inr (JObj [(''rates'', JObj [(''EUR'', JNum 2)])])
   \<and> has_rate (JObj [(''rates'', JObj [(''EUR'', JNum (2::int))])]) ''EUR'' 2
   \<and> py_mul sample_runtime 100 (JNum 2) = Inr (JNum 200)
   \<and> num_str sample_runtime 100 = Inr ''100''
   \<and> num_str sample_runtime 2 = Inr ''2''
   \<and> format_fixed sample_runtime 2 (JNum 200) = Inr ''200.00''
   \<and> format_fixed sample_runtime 4 (JNum 2) = Inr ''2.0000''
   \<and> fst (demo_tools_convert_currency sample_runtime 100 ''USD'' ''EUR'' rates_world)
       = Inr (money_bag @ '' 100 USD = 200.00 EUR (Rate: 2.0000)'')
   \<and> fst (local_multiple_tools_convert_currency sample_runtime 100 ''USD'' ''EUR'' rates_world)
       = Inr ''100 USD = 200.00 EUR (Rate: 2)''
   \<and> lacks_rate (JObj [(''rates'', JObj [(''EUR'', JNum (2::int))])]) ''GBP''
   \<and> fst (demo_tools_convert_currency sample_runtime 100 ''USD'' ''GBP'' rates_world)
       = Inr (cross_mark @ '' Could not find exchange rate for USD to GBP'')
   \<and> fst (local_multiple_tools_convert_currency sample_runtime 100 ''USD'' ''GBP'' rates_world)
       = Inr ''Error: Could not find exchange rate for USD to GBP''"
proof -
  let ?data = "JObj [(''rates'', JObj [(''EUR'', JNum (2::int))])]"
  have k: "\<not> has_key (environ rates_world ''EXCHANGE_API_KEY'')"
    by (simp add: rates_world_def sample_world_fields has_key_def)
  have d: "response_data (reply rates_world req) = Inr ?data" for req
    by (simp add: rates_world_def response_data_replies)
  have h: "has_rate ?data ''EUR'' 2" by (simp add: has_rate_def)
  have l: "lacks_rate ?data ''GBP''" by (simp add: lacks_rate_def)
  have m: "py_mul sample_runtime 100 (JNum 2) = Inr (JNum 200)"
    "format_fixed sample_runtime 2 (JNum 200) = Inr ''200.00''"
    "format_fixed sample_runtime 4 (JNum 2) = Inr ''2.0000''"
    "num_str sample_runtime 100 = Inr ''100''" "num_str sample_runtime 2 = Inr ''2''"
    by (simp_all add: sample_runtime_def eval_nat_numeral)
  from convert_currency_free_tier[where w = rates_world and from_currency = "''USD''"
      and to_currency = "''EUR''" and data = ?data and data' = ?data and rate = 2
      and rate' = 2 and rt = sample_runtime and amount = 100 and converted = "JNum 200"
      and converted' = "JNum 200" and amount_text = "''100''" and amount_text' = "''100''"
      and converted_text = "''200.00''" and converted_text' = "''200.00''"
      and rate_text = "''2.0000''" and rate_text' = "''2''"]
    convert_currency_free_tier[where w = rates_world and from_currency = "''USD''"
      and to_currency = "''GBP''" and data = ?data and data' = ?data and rate = 2
      and rate' = 2 and rt = sample_runtime and amount = 100 and converted = "JNum 200"
      and converted' = "JNum 200" and amount_text = "''100''" and amount_text' = "''100''"
      and converted_text = "''200.00''" and converted_text' = "''200.00''"
      and rate_text = "''2.0000''" and rate_text' = "''2''"]
    k d h l m
  show ?thesis by simp
qed

end
